theory Spec2Isabelle
  imports Main "HOL-Library.Char_ord"
begin

section \<open>Regular expressions of the pattern library\<close>

text \<open>
  Every pattern of the module is a regular expression literal of the form \<open>/^body$/\<close>
  without flags, used only through \<open>test\<close>. The body is embedded as a value of \<open>rx\<close>;
  a token is a \<open>string\<close> of 8-bit code units. A character class is a list of inclusive
  ranges, \<open>[a-z0-9]\<close> being \<open>Cls [(CHR ''a'', CHR ''z''), (CHR ''0'', CHR ''9'')]\<close>.
  \<open>Zero\<close> is the pattern that matches nothing; it only arises while matching.
\<close>

datatype rx =
    Zero
  | Lit string
  | Cls "(char \<times> char) list"
  | Seq rx rx
  | Alt rx rx
  | Star rx
  | Plus rx
  | Opt rx

definition in_ranges :: "char \<Rightarrow> (char \<times> char) list \<Rightarrow> bool" where
  "in_ranges c rs = list_ex (\<lambda>(lo, hi). lo \<le> c \<and> c \<le> hi) rs"

subsection \<open>The strings a pattern body denotes\<close>

definition conc :: "string set \<Rightarrow> string set \<Rightarrow> string set" where
  "conc A B = {u @ v | u v. u \<in> A \<and> v \<in> B}"

inductive_set star :: "string set \<Rightarrow> string set" for A :: "string set" where
  star_nil: "[] \<in> star A"
| star_app: "u \<in> A \<Longrightarrow> v \<in> star A \<Longrightarrow> u @ v \<in> star A"

fun lang :: "rx \<Rightarrow> string set" where
  "lang Zero = {}"
| "lang (Lit s) = {s}"
| "lang (Cls rs) = {[c] | c. in_ranges c rs}"
| "lang (Seq a b) = conc (lang a) (lang b)"
| "lang (Alt a b) = lang a \<union> lang b"
| "lang (Star a) = star (lang a)"
| "lang (Plus a) = conc (lang a) (star (lang a))"
| "lang (Opt a) = insert [] (lang a)"

subsection \<open>Matching a whole token, one character at a time\<close>

fun nullable :: "rx \<Rightarrow> bool" where
  "nullable Zero = False"
| "nullable (Lit s) = (s = [])"
| "nullable (Cls rs) = False"
| "nullable (Seq a b) = (nullable a \<and> nullable b)"
| "nullable (Alt a b) = (nullable a \<or> nullable b)"
| "nullable (Star a) = True"
| "nullable (Plus a) = nullable a"
| "nullable (Opt a) = True"

fun seq :: "rx \<Rightarrow> rx \<Rightarrow> rx" where
  "seq Zero b = Zero"
| "seq (Lit []) b = b"
| "seq a b = Seq a b"

fun alt :: "rx \<Rightarrow> rx \<Rightarrow> rx" where
  "alt Zero b = b"
| "alt a Zero = a"
| "alt a b = Alt a b"

fun deriv :: "char \<Rightarrow> rx \<Rightarrow> rx" where
  "deriv c Zero = Zero"
| "deriv c (Lit s) = (case s of [] \<Rightarrow> Zero | x # xs \<Rightarrow> if x = c then Lit xs else Zero)"
| "deriv c (Cls rs) = (if in_ranges c rs then Lit [] else Zero)"
| "deriv c (Seq a b) = alt (seq (deriv c a) b) (if nullable a then deriv c b else Zero)"
| "deriv c (Alt a b) = alt (deriv c a) (deriv c b)"
| "deriv c (Star a) = seq (deriv c a) (Star a)"
| "deriv c (Plus a) = seq (deriv c a) (Star a)"
| "deriv c (Opt a) = deriv c a"

fun accepts :: "rx \<Rightarrow> string \<Rightarrow> bool" where
  "accepts r [] = nullable r"
| "accepts r (c # cs) = accepts (deriv c r) cs"

text \<open>\<open>/^body$/.test(s)\<close> for a pattern without flags: the whole of \<open>s\<close> matches the body.\<close>

definition test :: "rx \<Rightarrow> string \<Rightarrow> bool" where
  "test body s = accepts body s"

subsection \<open>Notation of the pattern sources\<close>

fun cat :: "rx list \<Rightarrow> rx" where
  "cat [] = Lit []"
| "cat [r] = r"
| "cat (r # rs) = Seq r (cat rs)"

fun alts :: "rx list \<Rightarrow> rx" where
  "alts [] = Zero"
| "alts [r] = r"
| "alts (r # rs) = Alt r (alts rs)"

text \<open>\<open>(w1|w2|...)\<close>, an alternation of literal words.\<close>

definition words :: "string list \<Rightarrow> rx" where
  "words ws = alts (map Lit ws)"

text \<open>\<open>[abc]\<close>, a class of single characters.\<close>

definition one_of :: "string \<Rightarrow> rx" where
  "one_of cs = Cls (map (\<lambda>c. (c, c)) cs)"

text \<open>\<open>\d\<close>, \<open>\w\<close> and \<open>.\<close> (every code unit but the line terminators).\<close>

definition digit :: rx where
  "digit = Cls [(CHR ''0'', CHR ''9'')]"

definition word_char :: rx where
  "word_char = Cls [(CHR ''a'', CHR ''z''), (CHR ''A'', CHR ''Z''), (CHR ''0'', CHR ''9''),
     (CHR ''_'', CHR ''_'')]"

definition any_char :: rx where
  "any_char = Cls [(CHR 0x00, CHR 0x09), (CHR 0x0B, CHR 0x0C), (CHR 0x0E, CHR 0xFF)]"

text \<open>\<open>r{m}\<close> and \<open>r{m,n}\<close>\<close>

fun times :: "nat \<Rightarrow> rx \<Rightarrow> rx" where
  "times 0 r = Lit []"
| "times (Suc n) r = Seq r (times n r)"

fun at_most :: "nat \<Rightarrow> rx \<Rightarrow> rx" where
  "at_most 0 r = Lit []"
| "at_most (Suc n) r = Opt (Seq r (at_most n r))"

definition between :: "nat \<Rightarrow> nat \<Rightarrow> rx \<Rightarrow> rx" where
  "between m n r = Seq (times m r) (at_most (n - m) r)"

section \<open>Pattern library\<close>

text \<open>\<open>[a-z][a-z0-9]*(?:-[a-z0-9]+)*\<close>, the lowercase-hyphenated run shared by the
  block, element, nested-element and modifier patterns.\<close>

definition lower :: rx where
  "lower = Cls [(CHR ''a'', CHR ''z'')]"

definition lower_digit :: rx where
  "lower_digit = Cls [(CHR ''a'', CHR ''z''), (CHR ''0'', CHR ''9'')]"

definition segment :: rx where
  "segment = cat [lower, Star lower_digit, Star (Seq (Lit ''-'') (Plus lower_digit))]"

definition BLOCK_PATTERN :: rx where
  "BLOCK_PATTERN = segment"

definition ELEMENT_PATTERN :: rx where
  "ELEMENT_PATTERN = cat [segment, Lit ''_'', segment]"

definition NESTED_ELEMENT_PATTERN :: rx where
  "NESTED_ELEMENT_PATTERN = cat [segment, Lit ''_'', segment, Lit ''__'', segment]"

definition MODIFIER_PATTERN :: rx where
  "MODIFIER_PATTERN =
     cat [segment, Opt (Seq (Lit ''_'') segment), Opt (Seq (Lit ''__'') segment),
          Lit ''--'', segment]"

text \<open>\<open>(is|has)[A-Z][a-zA-Z0-9]*\<close>\<close>

definition STATE_PATTERN :: rx where
  "STATE_PATTERN =
     cat [words [''is'', ''has''], Cls [(CHR ''A'', CHR ''Z'')],
          Star (Cls [(CHR ''a'', CHR ''z''), (CHR ''A'', CHR ''Z''), (CHR ''0'', CHR ''9'')])]"


subsection \<open>The utility catalog\<close>

text \<open>The array \<open>UTILITY_PATTERNS\<close>, in the order of the source; each commented group of
  the array is a list of its own, and the array is their concatenation.\<close>

text \<open>Flexbox\<close>

definition utility_flexbox :: "rx list" where
  "utility_flexbox = [
     Lit ''flex'',
     Lit ''inline-flex'',
     Seq (Lit ''flex-'') (words [''row'', ''col'', ''wrap'', ''nowrap'', ''1'', ''auto'',
        ''initial'', ''none'']),
     cat [Lit ''flex-'', words [''row'', ''col''], Lit ''-reverse''],
     Seq (Lit ''items-'') (words [''start'', ''end'', ''center'', ''baseline'', ''stretch'']),
     Seq (Lit ''justify-'') (words [''start'', ''end'', ''center'', ''between'', ''around'',
        ''evenly'']),
     Seq (Lit ''self-'') (words [''auto'', ''start'', ''end'', ''center'', ''stretch'',
        ''baseline'']),
     Seq (Lit ''grow'') (Opt (Lit ''-0'')),
     Seq (Lit ''shrink'') (Opt (Lit ''-0'')),
     Seq (Lit ''order-'') (Plus digit)]"

text \<open>Grid\<close>

definition utility_grid :: "rx list" where
  "utility_grid = [
     Lit ''grid'',
     Lit ''inline-grid'',
     Seq (Lit ''grid-cols-'') (Plus digit),
     Seq (Lit ''grid-rows-'') (Plus digit),
     Seq (Lit ''col-span-'') (Plus digit),
     Seq (Lit ''row-span-'') (Plus digit),
     Seq (Lit ''gap-'') (Plus digit),
     Seq (Lit ''gap-x-'') (Plus digit),
     Seq (Lit ''gap-y-'') (Plus digit)]"

text \<open>Spacing (margin, padding)\<close>

definition utility_spacing :: "rx list" where
  "utility_spacing = [
     cat [one_of ''mp'', Opt (one_of ''trblxy''), Lit ''-'', Plus digit,
        Opt (Seq (Lit ''.'') (Plus digit))],
     cat [Lit ''-'', one_of ''mp'', Opt (one_of ''trblxy''), Lit ''-'', Plus digit,
        Opt (Seq (Lit ''.'') (Plus digit))],
     cat [Lit ''space-'', one_of ''xy'', Lit ''-'', Plus digit],
     cat [Lit ''-space-'', one_of ''xy'', Lit ''-'', Plus digit]]"

text \<open>Sizing\<close>

definition utility_sizing :: "rx list" where
  "utility_sizing = [
     cat [one_of ''wh'', Lit ''-'', alts [Lit ''full'', Lit ''screen'', Lit ''auto'',
        Lit ''min'', Lit ''max'', Lit ''fit'',
        Seq (Plus digit) (Opt (Seq (Lit ''.'') (Plus digit))), cat [Plus digit, Lit ''/'',
        Plus digit]]],
     cat [Lit ''min-'', one_of ''wh'', Lit ''-'', alts [Lit ''full'', Lit ''screen'',
        Lit ''0'', Seq (Plus digit) (Opt (Seq (Lit ''.'') (Plus digit)))]],
     cat [Lit ''max-'', one_of ''wh'', Lit ''-'', alts [Lit ''full'', Lit ''screen'',
        Lit ''none'', Seq (Plus digit) (Opt (Seq (Lit ''.'') (Plus digit)))]],
     Seq (Lit ''size-'') (Plus digit)]"

text \<open>Typography\<close>

definition utility_typography :: "rx list" where
  "utility_typography = [
     Seq (Lit ''text-'') (words [''xs'', ''sm'', ''base'', ''lg'', ''xl'', ''2xl'', ''3xl'',
        ''4xl'', ''5xl'', ''6xl'', ''7xl'', ''8xl'', ''9xl'']),
     Seq (Lit ''text-'') (words [''left'', ''center'', ''right'', ''justify'', ''start'',
        ''end'']),
     cat [Lit ''text-['', Plus any_char, Lit '']''],
     Seq (Lit ''font-'') (words [''thin'', ''extralight'', ''light'', ''normal'', ''medium'',
        ''semibold'', ''bold'', ''extrabold'', ''black'']),
     Seq (Lit ''font-'') (words [''sans'', ''serif'', ''mono'']),
     Seq (Lit ''leading-'') (alts [Lit ''none'', Lit ''tight'', Lit ''snug'', Lit ''normal'',
        Lit ''relaxed'', Lit ''loose'', Plus digit]),
     Seq (Lit ''tracking-'') (words [''tighter'', ''tight'', ''normal'', ''wide'', ''wider'',
        ''widest'']),
     Lit ''uppercase'',
     Lit ''lowercase'',
     Lit ''capitalize'',
     Lit ''normal-case'',
     Lit ''italic'',
     Lit ''not-italic'',
     Lit ''underline'',
     Lit ''overline'',
     Lit ''line-through'',
     Lit ''no-underline'',
     Lit ''truncate'',
     Seq (Lit ''whitespace-'') (words [''normal'', ''nowrap'', ''pre'', ''pre-line'',
        ''pre-wrap'', ''break-spaces'']),
     Seq (Lit ''break-'') (words [''normal'', ''words'', ''all'', ''keep''])]"

text \<open>Colors (simplified - matches common patterns)\<close>

definition utility_colors :: "rx list" where
  "utility_colors = [
     cat [words [''text'', ''bg'', ''border'', ''ring'', ''shadow''], Lit ''-'',
        words [''transparent'', ''current'', ''inherit'']],
     cat [words [''text'', ''bg'', ''border'', ''ring''], Lit ''-'', words [''black'',
        ''white'']],
     cat [words [''text'', ''bg'', ''border'', ''ring''], Lit ''-'', words [''slate'',
        ''gray'', ''zinc'', ''neutral'', ''stone'', ''red'', ''orange'', ''amber'', ''yellow'',
        ''lime'', ''green'', ''emerald'', ''teal'', ''cyan'', ''sky'', ''blue'', ''indigo'',
        ''violet'', ''purple'', ''fuchsia'', ''pink'', ''rose''], Lit ''-'',
        between 2 3 digit],
     cat [words [''text'', ''bg'', ''border'', ''ring''], Lit ''-[#'',
        between 3 8 (Cls [(CHR ''0'', CHR ''9''), (CHR ''a'', CHR ''f''), (CHR ''A'',
        CHR ''F'')]), Lit '']''],
     cat [words [''text'', ''bg'', ''border'', ''ring''], Lit ''-[rgb'', Plus any_char,
        Lit '']'']]"

text \<open>Backgrounds\<close>

definition utility_backgrounds :: "rx list" where
  "utility_backgrounds = [
     Seq (Lit ''bg-'') (words [''fixed'', ''local'', ''scroll'']),
     Seq (Lit ''bg-'') (words [''bottom'', ''center'', ''left'', ''left-bottom'', ''left-top'',
        ''right'', ''right-bottom'', ''right-top'', ''top'']),
     Seq (Lit ''bg-'') (words [''repeat'', ''no-repeat'', ''repeat-x'', ''repeat-y'',
        ''repeat-round'', ''repeat-space'']),
     Seq (Lit ''bg-'') (words [''auto'', ''cover'', ''contain'']),
     Seq (Lit ''bg-gradient-to-'') (words [''t'', ''tr'', ''r'', ''br'', ''b'', ''bl'', ''l'',
        ''tl'']),
     cat [Lit ''from-'', Plus word_char, Opt (Seq (Lit ''-'') (Plus digit))],
     cat [Lit ''via-'', Plus word_char, Opt (Seq (Lit ''-'') (Plus digit))],
     cat [Lit ''to-'', Plus word_char, Opt (Seq (Lit ''-'') (Plus digit))]]"

text \<open>Borders\<close>

definition utility_borders :: "rx list" where
  "utility_borders = [
     cat [Lit ''border'', Opt (Seq (Lit ''-'') (one_of ''trblxy'')),
        Opt (Seq (Lit ''-'') (Plus digit))],
     Seq (Lit ''border-'') (words [''solid'', ''dashed'', ''dotted'', ''double'', ''hidden'',
        ''none'']),
     cat [Lit ''rounded'', Opt (Seq (Lit ''-'') (one_of ''trblxy'')), Opt (words [''-none'',
        ''-sm'', ''-md'', ''-lg'', ''-xl'', ''-2xl'', ''-3xl'', ''-full''])],
     cat [Lit ''divide-'', one_of ''xy'', Opt (Seq (Lit ''-'') (Plus digit))],
     Seq (Lit ''divide-'') (words [''solid'', ''dashed'', ''dotted'', ''double'', ''none'']),
     Seq (Lit ''ring'') (Opt (Seq (Lit ''-'') (Plus digit))),
     Lit ''ring-inset'',
     Seq (Lit ''ring-offset-'') (Plus digit)]"

text \<open>Effects\<close>

definition utility_effects :: "rx list" where
  "utility_effects = [
     Seq (Lit ''shadow'') (Opt (words [''-sm'', ''-md'', ''-lg'', ''-xl'', ''-2xl'',
        ''-inner'', ''-none''])),
     Seq (Lit ''opacity-'') (Plus digit),
     Seq (Lit ''mix-blend-'') (Plus word_char),
     Seq (Lit ''bg-blend-'') (Plus word_char)]"

text \<open>Filters\<close>

definition utility_filters :: "rx list" where
  "utility_filters = [
     Seq (Lit ''blur'') (Opt (words [''-sm'', ''-md'', ''-lg'', ''-xl'', ''-2xl'', ''-3xl'',
        ''-none''])),
     Seq (Lit ''brightness-'') (Plus digit),
     Seq (Lit ''contrast-'') (Plus digit),
     Seq (Lit ''grayscale'') (Opt (Lit ''-0'')),
     Seq (Lit ''hue-rotate-'') (Plus digit),
     Seq (Lit ''-hue-rotate-'') (Plus digit),
     Seq (Lit ''invert'') (Opt (Lit ''-0'')),
     Seq (Lit ''saturate-'') (Plus digit),
     Seq (Lit ''sepia'') (Opt (Lit ''-0'')),
     Seq (Lit ''drop-shadow'') (Opt (words [''-sm'', ''-md'', ''-lg'', ''-xl'', ''-2xl'',
        ''-none''])),
     Seq (Lit ''backdrop-blur'') (Opt (words [''-sm'', ''-md'', ''-lg'', ''-xl'', ''-2xl'',
        ''-3xl'', ''-none'']))]"

text \<open>Layout\<close>

definition utility_layout :: "rx list" where
  "utility_layout = [
     Lit ''block'',
     Lit ''inline-block'',
     Lit ''inline'',
     Lit ''hidden'',
     Lit ''contents'',
     Lit ''flow-root'',
     Lit ''list-item'',
     Seq (Lit ''list-'') (words [''none'', ''disc'', ''decimal'']),
     Seq (Lit ''float-'') (words [''left'', ''right'', ''none'']),
     Seq (Lit ''clear-'') (words [''left'', ''right'', ''both'', ''none'']),
     Seq (Lit ''object-'') (words [''contain'', ''cover'', ''fill'', ''none'',
        ''scale-down'']),
     Seq (Lit ''object-'') (words [''bottom'', ''center'', ''left'', ''left-bottom'',
        ''left-top'', ''right'', ''right-bottom'', ''right-top'', ''top'']),
     cat [Lit ''overflow'', Opt (Seq (Lit ''-'') (one_of ''xy'')), Lit ''-'', words [''auto'',
        ''hidden'', ''clip'', ''visible'', ''scroll'']],
     cat [Lit ''overscroll'', Opt (Seq (Lit ''-'') (one_of ''xy'')), Lit ''-'',
        words [''auto'', ''contain'', ''none'']]]"

text \<open>Positioning\<close>

definition utility_positioning :: "rx list" where
  "utility_positioning = [
     words [''static'', ''fixed'', ''absolute'', ''relative'', ''sticky''],
     cat [words [''top'', ''right'', ''bottom'', ''left'', ''inset''],
        Opt (Seq (Lit ''-'') (one_of ''xy'')), Lit ''-'', Plus digit,
        Opt (Seq (Lit ''.'') (Plus digit))],
     cat [Lit ''-'', words [''top'', ''right'', ''bottom'', ''left'', ''inset''],
        Opt (Seq (Lit ''-'') (one_of ''xy'')), Lit ''-'', Plus digit,
        Opt (Seq (Lit ''.'') (Plus digit))],
     cat [words [''top'', ''right'', ''bottom'', ''left'', ''inset''],
        Opt (Seq (Lit ''-'') (one_of ''xy'')), Lit ''-'', words [''auto'', ''full'', ''1/2'']],
     Seq (Lit ''z-'') (Plus digit),
     Lit ''z-auto'',
     Seq (Lit ''-z-'') (Plus digit)]"

text \<open>Transforms\<close>

definition utility_transforms :: "rx list" where
  "utility_transforms = [
     cat [Lit ''scale'', Opt (Seq (Lit ''-'') (one_of ''xy'')), Lit ''-'', Plus digit],
     Seq (Lit ''rotate-'') (Plus digit),
     Seq (Lit ''-rotate-'') (Plus digit),
     cat [Lit ''translate-'', one_of ''xy'', Lit ''-'', Plus digit,
        Opt (Seq (Lit ''.'') (Plus digit))],
     cat [Lit ''-translate-'', one_of ''xy'', Lit ''-'', Plus digit,
        Opt (Seq (Lit ''.'') (Plus digit))],
     cat [Lit ''skew-'', one_of ''xy'', Lit ''-'', Plus digit],
     cat [Lit ''-skew-'', one_of ''xy'', Lit ''-'', Plus digit],
     Seq (Lit ''origin-'') (words [''center'', ''top'', ''top-right'', ''right'',
        ''bottom-right'', ''bottom'', ''bottom-left'', ''left'', ''top-left'']),
     Lit ''transform'',
     Lit ''transform-none'',
     Lit ''transform-gpu'']"

text \<open>Transitions & Animation\<close>

definition utility_transitions :: "rx list" where
  "utility_transitions = [
     Seq (Lit ''transition'') (Opt (words [''-all'', ''-colors'', ''-opacity'', ''-shadow'',
        ''-transform'', ''-none''])),
     Seq (Lit ''duration-'') (Plus digit),
     Seq (Lit ''ease-'') (words [''linear'', ''in'', ''out'', ''in-out'']),
     Seq (Lit ''delay-'') (Plus digit),
     Seq (Lit ''animate-'') (words [''none'', ''spin'', ''ping'', ''pulse'', ''bounce''])]"

text \<open>Interactivity\<close>

definition utility_interactivity :: "rx list" where
  "utility_interactivity = [
     Seq (Lit ''cursor-'') (words [''auto'', ''default'', ''pointer'', ''wait'', ''text'',
        ''move'', ''help'', ''not-allowed'', ''none'', ''context-menu'', ''progress'',
        ''cell'', ''crosshair'', ''vertical-text'', ''alias'', ''copy'', ''no-drop'', ''grab'',
        ''grabbing'', ''all-scroll'', ''col-resize'', ''row-resize'', ''n-resize'',
        ''e-resize'', ''s-resize'', ''w-resize'', ''ne-resize'', ''nw-resize'', ''se-resize'',
        ''sw-resize'', ''ew-resize'', ''ns-resize'', ''nesw-resize'', ''nwse-resize'',
        ''zoom-in'', ''zoom-out'']),
     Seq (Lit ''resize'') (Opt (words [''-none'', ''-x'', ''-y''])),
     Seq (Lit ''select-'') (words [''none'', ''text'', ''all'', ''auto'']),
     Seq (Lit ''pointer-events-'') (words [''none'', ''auto'']),
     Seq (Lit ''touch-'') (words [''auto'', ''none'', ''pan-x'', ''pan-left'', ''pan-right'',
        ''pan-y'', ''pan-up'', ''pan-down'', ''pinch-zoom'', ''manipulation'']),
     Seq (Lit ''scroll-'') (words [''auto'', ''smooth'']),
     cat [Lit ''scroll-'', one_of ''mp'', Opt (one_of ''trblxy''), Lit ''-'', Plus digit],
     Seq (Lit ''snap-'') (words [''start'', ''end'', ''center'', ''align-none'']),
     Seq (Lit ''snap-'') (words [''normal'', ''always'']),
     Seq (Lit ''snap-'') (words [''none'', ''x'', ''y'', ''both'', ''mandatory'',
        ''proximity'']),
     Lit ''appearance-none'',
     Seq (Lit ''outline'') (Opt (words [''-none'', ''-dashed'', ''-dotted'', ''-double''])),
     Seq (Lit ''outline-'') (Plus digit),
     Seq (Lit ''outline-offset-'') (Plus digit),
     cat [Lit ''accent-'', Plus word_char, Opt (Seq (Lit ''-'') (Plus digit))],
     cat [Lit ''caret-'', Plus word_char, Opt (Seq (Lit ''-'') (Plus digit))],
     Seq (Lit ''will-change-'') (words [''auto'', ''scroll'', ''contents'', ''transform''])]"

text \<open>Accessibility\<close>

definition utility_accessibility :: "rx list" where
  "utility_accessibility = [
     Lit ''sr-only'',
     Lit ''not-sr-only'',
     Seq (Lit ''forced-color-adjust-'') (words [''auto'', ''none''])]"

text \<open>Tables\<close>

definition utility_tables :: "rx list" where
  "utility_tables = [
     Seq (Lit ''table'') (Opt (words [''-auto'', ''-fixed''])),
     Seq (Lit ''table-'') (words [''caption'', ''cell'', ''column'', ''column-group'',
        ''footer-group'', ''header-group'', ''row-group'', ''row'']),
     Seq (Lit ''border-'') (words [''collapse'', ''separate'']),
     cat [Lit ''border-spacing'', Opt (Seq (Lit ''-'') (one_of ''xy'')), Lit ''-'',
        Plus digit],
     Seq (Lit ''caption-'') (words [''top'', ''bottom''])]"

text \<open>SVG\<close>

definition utility_svg :: "rx list" where
  "utility_svg = [
     Seq (Lit ''fill-'') (alts [Lit ''none'', Lit ''inherit'', Lit ''current'',
        Seq (Plus word_char) (Opt (Seq (Lit ''-'') (Plus digit)))]),
     Seq (Lit ''stroke-'') (alts [Lit ''none'', Lit ''inherit'', Lit ''current'',
        Seq (Plus word_char) (Opt (Seq (Lit ''-'') (Plus digit)))]),
     Seq (Lit ''stroke-'') (Plus digit)]"

text \<open>Aspect ratio\<close>

definition utility_aspect_ratio :: "rx list" where
  "utility_aspect_ratio = [
     Seq (Lit ''aspect-'') (words [''auto'', ''square'', ''video'']),
     cat [Lit ''aspect-['', Plus digit, Lit ''/'', Plus digit, Lit '']'']]"

text \<open>Columns\<close>

definition utility_columns :: "rx list" where
  "utility_columns = [
     Seq (Lit ''columns-'') (Plus digit),
     Seq (Lit ''columns-'') (words [''auto'', ''3xs'', ''2xs'', ''xs'', ''sm'', ''md'', ''lg'',
        ''xl'', ''2xl'', ''3xl'', ''4xl'', ''5xl'', ''6xl'', ''7xl'']),
     cat [Lit ''break-'', words [''before'', ''after'', ''inside''], Lit ''-'',
        words [''auto'', ''avoid'', ''all'', ''avoid-page'', ''page'', ''left'', ''right'',
        ''column'']]]"

text \<open>Box decoration\<close>

definition utility_box_decoration :: "rx list" where
  "utility_box_decoration = [
     Seq (Lit ''box-'') (words [''border'', ''content'']),
     Seq (Lit ''decoration-'') (words [''clone'', ''slice'']),
     Seq (Lit ''isolation-'') (words [''auto'', ''isolate''])]"

text \<open>Container\<close>

definition utility_container :: "rx list" where
  "utility_container = [
     Lit ''container'',
     Lit ''mx-auto'']"

text \<open>Visibility\<close>

definition utility_visibility :: "rx list" where
  "utility_visibility = [
     Lit ''visible'',
     Lit ''invisible'',
     Lit ''collapse'']"

definition UTILITY_PATTERNS :: "rx list" where
  "UTILITY_PATTERNS =
     utility_flexbox @ utility_grid @ utility_spacing @ utility_sizing @
        utility_typography @ utility_colors @ utility_backgrounds @ utility_borders @
        utility_effects @ utility_filters @ utility_layout @ utility_positioning @
        utility_transforms @ utility_transitions @ utility_interactivity @
        utility_accessibility @ utility_tables @ utility_svg @ utility_aspect_ratio @
        utility_columns @ utility_box_decoration @ utility_container @ utility_visibility"

section \<open>Types\<close>

datatype HcncClassType = Block | Element | NestedElement | Modifier | State | Utility

text \<open>The three optional fields of the configuration; \<open>None\<close> is an absent field.\<close>

record HcncConfig =
  customUtilities :: "string list option"
  allowUnknown :: "bool option"
  strictBem :: "bool option"

record ValidationResult =
  valid :: bool
  type :: "HcncClassType option"
  message :: "string option"

text \<open>
  \<open>new RegExp(patternStr)\<close> is the platform's constructor and is a parameter of the
  model: for a source it either throws (\<open>Inl\<close>, the exception it throws) or returns a
  pattern without flags, known by what its \<open>test\<close> answers on a string.
\<close>

type_synonym 'e RegExp_constructor = "string \<Rightarrow> 'e + (string \<Rightarrow> bool)"

text \<open>
  \<open>String.prototype.toUpperCase\<close> is the platform's function and a parameter of the
  model as well: its results for code units beyond ASCII are not all 8-bit code units.
\<close>

type_synonym toUpperCase_function = "string \<Rightarrow> string"

text \<open>A condition on an optional boolean field: absent and \<open>false\<close> are both falsy.\<close>

definition truthy :: "bool option \<Rightarrow> bool" where
  "truthy b = (b = Some True)"

section \<open>String operations of the platform\<close>

definition startsWith :: "string \<Rightarrow> string \<Rightarrow> bool" where
  "startsWith s p = (take (length p) s = p)"

fun includes_str :: "string \<Rightarrow> string \<Rightarrow> bool" where
  "includes_str [] sub = (sub = [])"
| "includes_str (c # s) sub = (startsWith (c # s) sub \<or> includes_str s sub)"

text \<open>\<open>s.replace(pat, rep)\<close> with a string pattern: the first occurrence only.\<close>

fun replace :: "string \<Rightarrow> string \<Rightarrow> string \<Rightarrow> string" where
  "replace [] pat rep = (if pat = [] then rep else [])"
| "replace (c # s) pat rep =
     (if startsWith (c # s) pat then rep @ drop (length pat) (c # s)
      else c # replace s pat rep)"

definition slice :: "string \<Rightarrow> nat \<Rightarrow> string" where
  "slice s n = drop n s"

definition charAt :: "string \<Rightarrow> nat \<Rightarrow> string" where
  "charAt s n = take 1 (drop n s)"

fun join :: "string list \<Rightarrow> string \<Rightarrow> string" where
  "join [] sep = []"
| "join [x] sep = x"
| "join (x # xs) sep = x @ sep @ join xs sep"

text \<open>\<open>/^body/.test(s)\<close> and \<open>/body/.test(s)\<close>: a match at the start, and a match anywhere.\<close>

definition test_start :: "rx \<Rightarrow> string \<Rightarrow> bool" where
  "test_start body s = list_ex (\<lambda>n. accepts body (take n s)) [0..<Suc (length s)]"

definition test_anywhere :: "rx \<Rightarrow> string \<Rightarrow> bool" where
  "test_anywhere body s = list_ex (\<lambda>i. test_start body (drop i s)) [0..<Suc (length s)]"

section \<open>Validation functions\<close>

definition isBlock :: "string \<Rightarrow> bool" where
  "isBlock className = test BLOCK_PATTERN className"

definition isElement :: "string \<Rightarrow> bool" where
  "isElement className = test ELEMENT_PATTERN className"

definition isNestedElement :: "string \<Rightarrow> bool" where
  "isNestedElement className = test NESTED_ELEMENT_PATTERN className"

definition isModifier :: "string \<Rightarrow> bool" where
  "isModifier className = test MODIFIER_PATTERN className"

definition isStateClass :: "string \<Rightarrow> bool" where
  "isStateClass className = test STATE_PATTERN className"

text \<open>The loop over \<open>customPatterns\<close>: each source is compiled when the loop reaches it.\<close>

fun customLoop :: "'e RegExp_constructor \<Rightarrow> string \<Rightarrow> string list \<Rightarrow> 'e + bool" where
  "customLoop RegExp className [] = Inr False"
| "customLoop RegExp className (patternStr # rest) =
     (case RegExp patternStr of
        Inl e \<Rightarrow> Inl e
      | Inr pattern \<Rightarrow>
          if pattern className then Inr True else customLoop RegExp className rest)"

definition isUtilityClass ::
  "'e RegExp_constructor \<Rightarrow> string \<Rightarrow> string list option \<Rightarrow> 'e + bool" where
  "isUtilityClass RegExp className customPatterns =
     (if list_ex (\<lambda>pattern. test pattern className) UTILITY_PATTERNS then Inr True
      else case customPatterns of
        None \<Rightarrow> Inr False
      | Some ps \<Rightarrow> customLoop RegExp className ps)"

definition isHcncClass :: "'e RegExp_constructor \<Rightarrow> string \<Rightarrow> 'e + bool" where
  "isHcncClass RegExp className =
     (case isUtilityClass RegExp className None of
        Inl e \<Rightarrow> Inl e
      | Inr u \<Rightarrow>
          if u then Inr False
          else Inr (isBlock className \<or> isElement className \<or>
                    isNestedElement className \<or> isModifier className))"

definition getClassType ::
  "'e RegExp_constructor \<Rightarrow> string \<Rightarrow> HcncConfig option \<Rightarrow> 'e + HcncClassType option" where
  "getClassType RegExp className config =
     (if isStateClass className then Inr (Some State)
      else if isModifier className then Inr (Some Modifier)
      else if isNestedElement className then Inr (Some NestedElement)
      else if isElement className then Inr (Some Element)
      else case isUtilityClass RegExp className (Option.bind config customUtilities) of
        Inl e \<Rightarrow> Inl e
      | Inr isUtility \<Rightarrow>
          if isUtility then
            (if truthy (Option.bind config strictBem) then Inr None else Inr (Some Utility))
          else if isBlock className then Inr (Some Block)
          else Inr None)"

text \<open>The suggestions, in the order in which the source pushes them.\<close>

definition suggestions :: "toUpperCase_function \<Rightarrow> string \<Rightarrow> string list" where
  \<open>suggestions toUpperCase className =
     (if includes_str className ''__'' \<and> \<not> includes_str className ''_''
      then [''Use single underscore for first-level elements: "'' @
              replace className ''__'' ''_'' @ ''"'']
      else []) @
     (if startsWith className ''is'' \<and>
         \<not> test_start (Seq (Lit ''is'') (Cls [(CHR ''A'', CHR ''Z'')])) className
      then [''State classes should use camelCase: "is'' @
              toUpperCase (charAt (slice className 2) 0) @ slice className 3 @ ''"'']
      else []) @
     (if startsWith className ''has'' \<and>
         \<not> test_start (Seq (Lit ''has'') (Cls [(CHR ''A'', CHR ''Z'')])) className
      then [''State classes should use camelCase: "has'' @
              toUpperCase (charAt (slice className 3) 0) @ slice className 4 @ ''"'']
      else []) @
     (if test_anywhere (Cls [(CHR ''A'', CHR ''Z'')]) className \<and> \<not> isStateClass className
      then [''HCNC classes (except states) should be lowercase'']
      else []) @
     (if includes_str className ''___''
      then [''Maximum nesting is 2 levels (use __ for nested elements)'']
      else [])\<close>

definition validateClassName ::
  "'e RegExp_constructor \<Rightarrow> toUpperCase_function \<Rightarrow> string \<Rightarrow> HcncConfig option \<Rightarrow>
     'e + ValidationResult" where
  \<open>validateClassName RegExp toUpperCase className config =
     (case getClassType RegExp className config of
        Inl e \<Rightarrow> Inl e
      | Inr (Some t) \<Rightarrow> Inr \<lparr>valid = True, type = Some t, message = None\<rparr>
      | Inr None \<Rightarrow>
          if truthy (Option.bind config allowUnknown) then
            Inr \<lparr>valid = True, type = None,
                 message = Some (''Unknown class "'' @ className @ ''" (allowed by config)'')\<rparr>
          else
            Inr \<lparr>valid = False, type = None,
                 message = Some
                   (if suggestions toUpperCase className \<noteq> []
                    then ''Class "'' @ className @ ''" does not match HCNC convention. '' @
                         join (suggestions toUpperCase className) ''. ''
                    else ''Class "'' @ className @
                         ''" does not match HCNC naming convention'')\<rparr>)\<close>


section \<open>SCSS nesting expansion\<close>

text \<open>\<open>\s\<close> of a pattern and the white space that \<open>trim\<close> removes, among 8-bit code
  units: tab to carriage return, space and no-break space.\<close>

definition isSpace :: "char \<Rightarrow> bool" where
  "isSpace c = in_ranges c [(CHR 0x09, CHR 0x0D), (CHR '' '', CHR '' ''), (CHR 0xA0, CHR 0xA0)]"

definition space :: rx where
  "space = Cls [(CHR 0x09, CHR 0x0D), (CHR '' '', CHR '' ''), (CHR 0xA0, CHR 0xA0)]"

definition trim :: "string \<Rightarrow> string" where
  "trim s = rev (dropWhile isSpace (rev (dropWhile isSpace s)))"

text \<open>\<open>s.split(sep)\<close> with a one-character separator; the result of the source is never
  empty, so the last case of the inner \<open>case\<close> is never taken.\<close>

fun split :: "string \<Rightarrow> char \<Rightarrow> string list" where
  "split [] sep = [[]]"
| "split (c # s) sep =
     (if c = sep then [] # split s sep
      else case split s sep of l # ls \<Rightarrow> (c # l) # ls | [] \<Rightarrow> [[c]])"

text \<open>
  The selector pattern
  \<open>/^([.#]?[a-zA-Z_&][a-zA-Z0-9_-]*(?:\s*,\s*[.#]?[a-zA-Z_&][a-zA-Z0-9_-]*)*)\s*\{?\s*$/\<close>
  is its capture group followed by \<open>\s*\{?\s*\<close>.
\<close>

definition selector_item :: rx where
  "selector_item =
     cat [Opt (one_of ''.#''),
          Cls [(CHR ''a'', CHR ''z''), (CHR ''A'', CHR ''Z''), (CHR ''_'', CHR ''_''),
               (CHR ''&'', CHR ''&'')],
          Star (Cls [(CHR ''a'', CHR ''z''), (CHR ''A'', CHR ''Z''), (CHR ''0'', CHR ''9''),
                     (CHR ''_'', CHR ''_''), (CHR ''-'', CHR ''-'')])]"

definition SELECTOR_GROUP :: rx where
  "SELECTOR_GROUP =
     Seq selector_item (Star (cat [Star space, Lit '','', Star space, selector_item]))"

definition SELECTOR_REST :: rx where
  "SELECTOR_REST = cat [Star space, Opt (Lit ''{''), Star space]"

text \<open>\<open>trimmed.match(pattern)\<close>, reduced to what the source reads of it: \<open>None\<close> when the
  line does not match, and the text of capture group 1 otherwise. The group is a prefix
  of the line such that the group matches it and \<open>\s*\{?\s*\<close> the rest; the longest is
  tried first, as the greedy quantifiers do.\<close>

definition selectorMatch :: "string \<Rightarrow> string option" where
  "selectorMatch trimmed =
     map_option (\<lambda>n. take n trimmed)
       (find (\<lambda>n. accepts SELECTOR_GROUP (take n trimmed) \<and>
                   accepts SELECTOR_REST (drop n trimmed))
             (rev [0..<Suc (length trimmed)]))"

text \<open>\<open>stack[stack.length - 1] || ''\<close>: an empty stack reads \<open>undefined\<close>, which is
  falsy, as is an empty string on top.\<close>

definition parent :: "string list \<Rightarrow> string" where
  "parent stack = (case stack of [] \<Rightarrow> [] | _ # _ \<Rightarrow> last stack)"

text \<open>\<open>stack.pop()\<close>, whose result the source drops: nothing happens to an empty stack.\<close>

definition pop :: "string list \<Rightarrow> string list" where
  "pop stack = (case stack of [] \<Rightarrow> [] | _ # _ \<Rightarrow> butlast stack)"

text \<open>The body of the loop over the lines, on the pair of \<open>expanded\<close> and \<open>stack\<close>.\<close>

definition scssLine :: "string list \<times> string list \<Rightarrow> string \<Rightarrow> string list \<times> string list" where
  "scssLine st line =
     (let trimmed = trim line;
          opened =
            (case selectorMatch trimmed of
               None \<Rightarrow> st
             | Some m \<Rightarrow>
                 let selector =
                       (if startsWith m ''&'' then parent (snd st) @ slice m 1 else m);
                     expanded =
                       (if startsWith selector ''.'' then fst st @ [slice selector 1]
                        else fst st)
                 in (expanded, snd st @ [selector]))
      in if includes_str trimmed ''}'' then (fst opened, pop (snd opened)) else opened)"

definition expandScssNesting :: "string \<Rightarrow> string list" where
  "expandScssNesting scss = fst (foldl scssLine ([], []) (split scss (CHR 0x0A)))"

section \<open>The module with its pattern objects\<close>

text \<open>
  The patterns are objects of the module, and \<open>test\<close> is a method that may write the
  \<open>lastIndex\<close> of its object. Here the objects are part of an explicit module state and
  \<open>test\<close> returns the object it leaves behind. For a pattern \<open>/^body$/\<close>, a match can
  only begin at index 0 and end at the end of the string; with the flag \<open>g\<close> or \<open>y\<close>
  the search starts at \<open>lastIndex\<close>, which is set to the end of a match and to 0 after
  a failure; without them the search starts at 0 and \<open>lastIndex\<close> is not written.
\<close>

record RegExp =
  body :: rx
  global :: bool
  sticky :: bool
  lastIndex :: nat

text \<open>The object of a literal \<open>/^body$/\<close>, which has no flag.\<close>

definition literal :: "rx \<Rightarrow> RegExp" where
  "literal b = \<lparr>body = b, global = False, sticky = False, lastIndex = 0\<rparr>"

definition RegExp_test :: "RegExp \<Rightarrow> string \<Rightarrow> bool \<times> RegExp" where
  "RegExp_test R s =
     (let start = (if global R \<or> sticky R then lastIndex R else 0) in
      if start = 0 \<and> accepts (body R) s
      then (True, if global R \<or> sticky R then R\<lparr>lastIndex := length s\<rparr> else R)
      else (False, if global R \<or> sticky R then R\<lparr>lastIndex := 0\<rparr> else R))"

record module =
  block_pattern :: RegExp
  element_pattern :: RegExp
  nested_element_pattern :: RegExp
  modifier_pattern :: RegExp
  state_pattern :: RegExp
  utility_patterns :: "RegExp list"

text \<open>The module after its constants are evaluated.\<close>

definition loaded :: module where
  "loaded =
     \<lparr>block_pattern = literal BLOCK_PATTERN,
      element_pattern = literal ELEMENT_PATTERN,
      nested_element_pattern = literal NESTED_ELEMENT_PATTERN,
      modifier_pattern = literal MODIFIER_PATTERN,
      state_pattern = literal STATE_PATTERN,
      utility_patterns = map literal UTILITY_PATTERNS\<rparr>"

definition isBlock_in :: "string \<Rightarrow> module \<Rightarrow> bool \<times> module" where
  "isBlock_in className m =
     (let (b, R) = RegExp_test (block_pattern m) className in (b, m\<lparr>block_pattern := R\<rparr>))"

definition isElement_in :: "string \<Rightarrow> module \<Rightarrow> bool \<times> module" where
  "isElement_in className m =
     (let (b, R) = RegExp_test (element_pattern m) className
      in (b, m\<lparr>element_pattern := R\<rparr>))"

definition isNestedElement_in :: "string \<Rightarrow> module \<Rightarrow> bool \<times> module" where
  "isNestedElement_in className m =
     (let (b, R) = RegExp_test (nested_element_pattern m) className
      in (b, m\<lparr>nested_element_pattern := R\<rparr>))"

definition isModifier_in :: "string \<Rightarrow> module \<Rightarrow> bool \<times> module" where
  "isModifier_in className m =
     (let (b, R) = RegExp_test (modifier_pattern m) className
      in (b, m\<lparr>modifier_pattern := R\<rparr>))"

definition isStateClass_in :: "string \<Rightarrow> module \<Rightarrow> bool \<times> module" where
  "isStateClass_in className m =
     (let (b, R) = RegExp_test (state_pattern m) className in (b, m\<lparr>state_pattern := R\<rparr>))"

text \<open>The loop over \<open>UTILITY_PATTERNS\<close>, which returns at the first match.\<close>

fun builtinLoop_in :: "string \<Rightarrow> RegExp list \<Rightarrow> bool \<times> RegExp list" where
  "builtinLoop_in className [] = (False, [])"
| "builtinLoop_in className (pattern # rest) =
     (let (b, R) = RegExp_test pattern className in
      if b then (True, R # rest)
      else let (found, rest') = builtinLoop_in className rest in (found, R # rest'))"

definition isUtilityClass_in ::
  "'e RegExp_constructor \<Rightarrow> string \<Rightarrow> string list option \<Rightarrow> module \<Rightarrow> ('e + bool) \<times> module"
  where
  "isUtilityClass_in RegExp className customPatterns m =
     (let (found, ps) = builtinLoop_in className (utility_patterns m);
          m' = m\<lparr>utility_patterns := ps\<rparr> in
      if found then (Inr True, m')
      else case customPatterns of
        None \<Rightarrow> (Inr False, m')
      | Some srcs \<Rightarrow> (customLoop RegExp className srcs, m'))"

definition getClassType_in ::
  "'e RegExp_constructor \<Rightarrow> string \<Rightarrow> HcncConfig option \<Rightarrow> module \<Rightarrow>
     ('e + HcncClassType option) \<times> module" where
  "getClassType_in RegExp className config m0 =
     (let (isState, m1) = isStateClass_in className m0 in
      if isState then (Inr (Some State), m1) else
      let (isMod, m2) = isModifier_in className m1 in
      if isMod then (Inr (Some Modifier), m2) else
      let (isNested, m3) = isNestedElement_in className m2 in
      if isNested then (Inr (Some NestedElement), m3) else
      let (isElem, m4) = isElement_in className m3 in
      if isElem then (Inr (Some Element), m4) else
      let (u, m5) = isUtilityClass_in RegExp className (Option.bind config customUtilities) m4
      in case u of
        Inl e \<Rightarrow> (Inl e, m5)
      | Inr isUtility \<Rightarrow>
          if isUtility then
            (if truthy (Option.bind config strictBem) then (Inr None, m5)
             else (Inr (Some Utility), m5))
          else let (isBlk, m6) = isBlock_in className m5 in
            if isBlk then (Inr (Some Block), m6) else (Inr None, m6))"

text \<open>The one condition of the suggestions that reads a pattern of the module: the
  right operand of \<open>&&\<close> is evaluated only when the left one holds.\<close>

definition upperNonState_in :: "string \<Rightarrow> module \<Rightarrow> bool \<times> module" where
  "upperNonState_in className m =
     (if test_anywhere (Cls [(CHR ''A'', CHR ''Z'')]) className
      then let (isState, m') = isStateClass_in className m in (\<not> isState, m')
      else (False, m))"

definition validateClassName_in ::
  "'e RegExp_constructor \<Rightarrow> toUpperCase_function \<Rightarrow> string \<Rightarrow> HcncConfig option \<Rightarrow>
     module \<Rightarrow> ('e + ValidationResult) \<times> module" where
  \<open>validateClassName_in RegExp toUpperCase className config m0 =
     (let (t, m1) = getClassType_in RegExp className config m0 in
      case t of
        Inl e \<Rightarrow> (Inl e, m1)
      | Inr (Some k) \<Rightarrow> (Inr \<lparr>valid = True, type = Some k, message = None\<rparr>, m1)
      | Inr None \<Rightarrow>
          if truthy (Option.bind config allowUnknown) then
            (Inr \<lparr>valid = True, type = None,
                  message = Some (''Unknown class "'' @ className @ ''" (allowed by config)'')\<rparr>,
             m1)
          else
            let (upper, m2) = upperNonState_in className m1;
                found =
                  (if includes_str className ''__'' \<and> \<not> includes_str className ''_''
                   then [''Use single underscore for first-level elements: "'' @
                           replace className ''__'' ''_'' @ ''"'']
                   else []) @
                  (if startsWith className ''is'' \<and>
                      \<not> test_start (Seq (Lit ''is'') (Cls [(CHR ''A'', CHR ''Z'')])) className
                   then [''State classes should use camelCase: "is'' @
                           toUpperCase (charAt (slice className 2) 0) @ slice className 3 @
                           ''"'']
                   else []) @
                  (if startsWith className ''has'' \<and>
                      \<not> test_start (Seq (Lit ''has'') (Cls [(CHR ''A'', CHR ''Z'')])) className
                   then [''State classes should use camelCase: "has'' @
                           toUpperCase (charAt (slice className 3) 0) @ slice className 4 @
                           ''"'']
                   else []) @
                  (if upper then [''HCNC classes (except states) should be lowercase'']
                   else []) @
                  (if includes_str className ''___''
                   then [''Maximum nesting is 2 levels (use __ for nested elements)'']
                   else [])
            in (Inr \<lparr>valid = False, type = None,
                     message = Some
                       (if found \<noteq> []
                        then ''Class "'' @ className @ ''" does not match HCNC convention. '' @
                             join found ''. ''
                        else ''Class "'' @ className @
                             ''" does not match HCNC naming convention'')\<rparr>,
                m2))\<close>

section \<open>Scanners: properties of every string of a pattern\<close>

text \<open>
  A scanner reads a string from left to right and keeps a state, a natural number. It
  sorts the characters into kinds: \<open>kinds\<close> lists ranges of characters with their kind,
  the first range that holds a character decides, and a character in no range has the
  kind \<open>other\<close>. \<open>delta\<close> gives the next state from a state and the kind of the
  character read.
\<close>

record scanner =
  kinds :: "(char \<times> char \<times> nat) list"
  other :: nat
  delta :: "nat \<Rightarrow> nat \<Rightarrow> nat"

definition kind_of :: "scanner \<Rightarrow> char \<Rightarrow> nat" where
  "kind_of sc c =
     (case find (\<lambda>(lo, hi, k). lo \<le> c \<and> c \<le> hi) (kinds sc) of
        None \<Rightarrow> other sc
      | Some (lo, hi, k) \<Rightarrow> k)"

definition step :: "scanner \<Rightarrow> nat \<Rightarrow> char \<Rightarrow> nat" where
  "step sc q c = delta sc q (kind_of sc c)"

definition run :: "scanner \<Rightarrow> nat \<Rightarrow> string \<Rightarrow> nat" where
  "run sc q s = foldl (step sc) q s"

text \<open>Kinds that include the kind of every character of a class: the kinds of the ranges
  that meet the class, and \<open>other\<close> unless each range of the class lies in one of them.\<close>

definition class_kinds :: "scanner \<Rightarrow> (char \<times> char) list \<Rightarrow> nat list" where
  "class_kinds sc rs =
     (if list_all (\<lambda>(a, b). list_ex (\<lambda>(lo, hi, k). lo \<le> a \<and> b \<le> hi) (kinds sc)) rs
      then [] else [other sc]) @
     map (\<lambda>(lo, hi, k). k)
       (filter (\<lambda>(lo, hi, k). list_ex (\<lambda>(a, b). lo \<le> b \<and> a \<le> hi) rs) (kinds sc))"

text \<open>
  \<open>post sc n r Q\<close> lists states that include every state in which the scanner can be
  after a string of the pattern \<open>r\<close>, when it was in a state of \<open>Q\<close> before; \<open>None\<close>
  means that \<open>n\<close> rounds did not suffice to close a repetition.
\<close>

fun run_each :: "scanner \<Rightarrow> string \<Rightarrow> nat list \<Rightarrow> nat list" where
  "run_each sc s [] = []"
| "run_each sc s (q # Q) = run sc q s # run_each sc s Q"

fun moves :: "scanner \<Rightarrow> nat list \<Rightarrow> nat list \<Rightarrow> nat list" where
  "moves sc ks [] = []"
| "moves sc ks (q # Q) = map (delta sc q) ks @ moves sc ks Q"

fun saturate :: "(nat list \<Rightarrow> nat list option) \<Rightarrow> nat \<Rightarrow> nat list \<Rightarrow> nat list option" where
  "saturate f 0 Q = None"
| "saturate f (Suc n) Q =
     (case f Q of
        None \<Rightarrow> None
      | Some R \<Rightarrow> if list_all (List.member Q) R then Some Q
                  else saturate f n (remdups (Q @ R)))"

fun post :: "scanner \<Rightarrow> nat \<Rightarrow> rx \<Rightarrow> nat list \<Rightarrow> nat list option" where
  "post sc n Zero Q = Some []"
| "post sc n (Lit s) Q = Some (remdups (run_each sc s Q))"
| "post sc n (Cls rs) Q = Some (remdups (moves sc (class_kinds sc rs) Q))"
| "post sc n (Seq a b) Q =
     (case post sc n a Q of None \<Rightarrow> None | Some R \<Rightarrow> post sc n b R)"
| "post sc n (Alt a b) Q =
     (case post sc n a Q of
        None \<Rightarrow> None
      | Some R \<Rightarrow> (case post sc n b Q of None \<Rightarrow> None | Some R' \<Rightarrow> Some (remdups (R @ R'))))"
| "post sc n (Star a) Q = saturate (post sc n a) n Q"
| "post sc n (Plus a) Q =
     (case post sc n a Q of None \<Rightarrow> None | Some R \<Rightarrow> saturate (post sc n a) n R)"
| "post sc n (Opt a) Q =
     (case post sc n a Q of None \<Rightarrow> None | Some R \<Rightarrow> Some (remdups (Q @ R)))"

text \<open>From state 0, every string of the pattern leaves the scanner in a state of \<open>ok\<close>.\<close>

definition ends_in :: "scanner \<Rightarrow> rx \<Rightarrow> nat list \<Rightarrow> bool" where
  "ends_in sc r ok =
     (case post sc 8 r [0] of None \<Rightarrow> False | Some R \<Rightarrow> list_all (List.member ok) R)"

text \<open>State 1 once an uppercase letter was read.\<close>

definition upper_seen :: scanner where
  "upper_seen =
     \<lparr>kinds = [(CHR ''A'', CHR ''Z'', 1)], other = 0,
      delta = (\<lambda>q k. if q = 1 \<or> k = 1 then 1 else 0)\<rparr>"

text \<open>State 1 once an underscore was read.\<close>

definition underscore_seen :: scanner where
  "underscore_seen =
     \<lparr>kinds = [(CHR ''_'', CHR ''_'', 1)], other = 0,
      delta = (\<lambda>q k. if q = 1 \<or> k = 1 then 1 else 0)\<rparr>"

text \<open>State 3 once a character outside \<open>[a-z0-9_-]\<close> was read; if none was, state 2 once
  two hyphens in a row were read, and state 1 right after a single hyphen.\<close>

definition hyphens :: scanner where
  "hyphens =
     \<lparr>kinds = [(CHR ''a'', CHR ''z'', 0), (CHR ''-'', CHR ''-'', 1), (CHR ''0'', CHR ''9'', 0),
               (CHR ''_'', CHR ''_'', 0)],
      other = 2,
      delta = (\<lambda>q k. if q = 3 \<or> k = 2 then 3 else if q = 2 then 2
                       else if k = 1 then (if q = 0 then 1 else 2) else 0)\<rparr>"

text \<open>The state is the number of underscores just read, and stays 3 once it is reached.\<close>

definition underscores :: scanner where
  "underscores =
     \<lparr>kinds = [(CHR ''_'', CHR ''_'', 1)], other = 0,
      delta = (\<lambda>q k. if k = 1 then (if q = 0 then 1 else if q = 1 then 2 else 3)
                       else if q = 3 then 3 else 0)\<rparr>"

text \<open>State 1 once a closing brace was read.\<close>

definition brace_seen :: scanner where
  "brace_seen =
     \<lparr>kinds = [(CHR ''}'', CHR ''}'', 1)], other = 0,
      delta = (\<lambda>q k. if q = 1 \<or> k = 1 then 1 else 0)\<rparr>"

text \<open>State 1 after the first character; after the second, state 2 if it is a dot and
  state 3 if it is not.\<close>

definition second_dot :: scanner where
  "second_dot =
     \<lparr>kinds = [(CHR ''.'', CHR ''.'', 1)], other = 0,
      delta = (\<lambda>q k. if q = 0 then 1 else if q = 1 then (if k = 1 then 2 else 3) else q)\<rparr>"

text \<open>The characters that \<open>\s*\{?\s*\<close> can match have kind 1. \<open>last_plain\<close> is in
  state 2 right after such a character and in state 1 right after any other;
  \<open>plain_seen\<close> is in state 1 once a character of kind 0 was read.\<close>

definition brace_or_space :: "(char \<times> char \<times> nat) list" where
  "brace_or_space =
     [(CHR 0x09, CHR 0x0D, 1), (CHR '' '', CHR '' '', 1), (CHR 0xA0, CHR 0xA0, 1),
      (CHR ''{'', CHR ''{'', 1)]"

definition last_plain :: scanner where
  "last_plain = \<lparr>kinds = brace_or_space, other = 0, delta = (\<lambda>q k. if k = 1 then 2 else 1)\<rparr>"

definition plain_seen :: scanner where
  "plain_seen =
     \<lparr>kinds = brace_or_space, other = 0, delta = (\<lambda>q k. if q = 1 \<or> k = 0 then 1 else 0)\<rparr>"

text \<open>The strings that remain of a set after a first character.\<close>

definition after :: "char \<Rightarrow> string set \<Rightarrow> string set" where
  "after c A = {w. c # w \<in> A}"

section \<open>Patterns that can match an underscore\<close>

text \<open>A pattern admits an underscore when one of its literals has one or one of its
  classes holds it.\<close>

fun admits_underscore :: "rx \<Rightarrow> bool" where
  "admits_underscore Zero = False"
| "admits_underscore (Lit s) = (CHR ''_'' \<in> set s)"
| "admits_underscore (Cls rs) = in_ranges (CHR ''_'') rs"
| "admits_underscore (Seq a b) = (admits_underscore a \<or> admits_underscore b)"
| "admits_underscore (Alt a b) = (admits_underscore a \<or> admits_underscore b)"
| "admits_underscore (Star a) = admits_underscore a"
| "admits_underscore (Plus a) = admits_underscore a"
| "admits_underscore (Opt a) = admits_underscore a"

text \<open>The patterns of the utility catalog that admit an underscore, in the order of the
  catalog: the two with \<open>.+\<close> and the nine with \<open>\w+\<close>.\<close>

definition underscore_tolerant :: "rx list" where
  "underscore_tolerant = [
     cat [Lit ''text-['', Plus any_char, Lit '']''],
     cat [words [''text'', ''bg'', ''border'', ''ring''], Lit ''-[rgb'', Plus any_char,
        Lit '']''],
     cat [Lit ''from-'', Plus word_char, Opt (Seq (Lit ''-'') (Plus digit))],
     cat [Lit ''via-'', Plus word_char, Opt (Seq (Lit ''-'') (Plus digit))],
     cat [Lit ''to-'', Plus word_char, Opt (Seq (Lit ''-'') (Plus digit))],
     Seq (Lit ''mix-blend-'') (Plus word_char),
     Seq (Lit ''bg-blend-'') (Plus word_char),
     cat [Lit ''accent-'', Plus word_char, Opt (Seq (Lit ''-'') (Plus digit))],
     cat [Lit ''caret-'', Plus word_char, Opt (Seq (Lit ''-'') (Plus digit))],
     Seq (Lit ''fill-'') (alts [Lit ''none'', Lit ''inherit'', Lit ''current'',
        Seq (Plus word_char) (Opt (Seq (Lit ''-'') (Plus digit)))]),
     Seq (Lit ''stroke-'') (alts [Lit ''none'', Lit ''inherit'', Lit ''current'',
        Seq (Plus word_char) (Opt (Seq (Lit ''-'') (Plus digit)))])]"

section \<open>The modifier grammar in the words of the specification\<close>

text \<open>
  The specification describes a modifier as a block, an element or a nested element,
  followed by \<open>--\<close> and one lowercase-hyphenated segment. This predicate follows those
  words, to be compared with \<open>isModifier\<close>, which follows the pattern of the source.
\<close>

definition modifier_as_specified :: "string \<Rightarrow> bool" where
  "modifier_as_specified t =
     list_ex (\<lambda>n. (isBlock (take n t) \<or> isElement (take n t) \<or> isNestedElement (take n t)) \<and>
                   take 2 (drop n t) = ''--'' \<and> test segment (drop (n + 2) t))
       [0..<length t]"

section \<open>Instances of the platform's functions\<close>

text \<open>
  The closed examples need a constructor to run with. This one compiles the two sources
  that the test suite passes as custom utilities, \<open>^custom-.*$\<close> and \<open>^my-.*$\<close>, and
  throws for every other source; the examples give it no other source but \<open>(\<close>, an
  unterminated group, for which every engine throws.
\<close>

definition sample_RegExp :: "string RegExp_constructor" where
  "sample_RegExp src =
     (if src = ''^custom-.*$'' then Inr (test (Seq (Lit ''custom-'') (Star any_char)))
      else if src = ''^my-.*$'' then Inr (test (Seq (Lit ''my-'') (Star any_char)))
      else Inl (''Invalid regular expression: /'' @ src @ ''/''))"

text \<open>
  The examples need a \<open>toUpperCase\<close> too. This one maps the lowercase ASCII letters to
  the uppercase ones, as the platform's function does on strings of ASCII characters;
  the examples pass it no other string.
\<close>

definition sample_toUpperCase :: toUpperCase_function where
  "sample_toUpperCase s =
     map (\<lambda>c. if CHR ''a'' \<le> c \<and> c \<le> CHR ''z'' then char_of (of_char c - (32::nat)) else c) s"

section \<open>The matcher decides the language of a pattern\<close>

lemma conc_empty [simp]: "conc {} B = {}" "conc A {} = {}"
  by (auto simp: conc_def)

lemma conc_nil [simp]: "conc {[]} B = B"
  by (auto simp: conc_def)

lemma concI: "u \<in> A \<Longrightarrow> v \<in> B \<Longrightarrow> u @ v \<in> conc A B"
  by (auto simp: conc_def)

lemma concE: "w \<in> conc A B \<Longrightarrow> (\<And>u v. w = u @ v \<Longrightarrow> u \<in> A \<Longrightarrow> v \<in> B \<Longrightarrow> P) \<Longrightarrow> P"
  by (auto simp: conc_def)

lemma lang_seq [simp]: "lang (seq a b) = conc (lang a) (lang b)"
  by (induction a b rule: seq.induct) simp_all

lemma lang_alt [simp]: "lang (alt a b) = lang a \<union> lang b"
  by (induction a b rule: alt.induct) simp_all

lemma star_unfold: "star A = insert [] (conc A (star A))"
proof
  show "star A \<subseteq> insert [] (conc A (star A))"
  proof
    fix w assume "w \<in> star A"
    then show "w \<in> insert [] (conc A (star A))"
      by cases (auto intro: concI)
  qed
  show "insert [] (conc A (star A)) \<subseteq> star A"
    by (auto elim!: concE intro: star.intros)
qed

lemma nullable_lang: "nullable r \<longleftrightarrow> [] \<in> lang r"
  by (induction r) (auto simp: conc_def intro: star.intros)

lemma after_simps [simp]:
  "after c {} = {}"
  "after c (A \<union> B) = after c A \<union> after c B"
  "after c (insert [] A) = after c A"
  by (auto simp: after_def)

lemma after_conc:
  "after c (conc A B) = conc (after c A) B \<union> (if [] \<in> A then after c B else {})"
proof -
  have "c # w \<in> conc A B \<longleftrightarrow>
          (\<exists>u v. w = u @ v \<and> c # u \<in> A \<and> v \<in> B) \<or> ([] \<in> A \<and> c # w \<in> B)" for w
    unfolding conc_def by (auto simp: append_eq_Cons_conv Cons_eq_append_conv)
  then show ?thesis
    by (auto simp: after_def conc_def)
qed

lemma star_Cons:
  "x \<in> star A \<Longrightarrow> x = c # w \<Longrightarrow> w \<in> conc (after c A) (star A)"
proof (induction arbitrary: w rule: star.induct)
  case star_nil
  then show ?case by simp
next
  case (star_app u v)
  show ?case
  proof (cases u)
    case Nil
    with star_app show ?thesis by simp
  next
    case (Cons a u')
    with star_app.prems have "a = c" and "w = u' @ v" by simp_all
    with Cons star_app.hyps show ?thesis
      by (auto simp: after_def intro: concI)
  qed
qed

lemma after_star: "after c (star A) = conc (after c A) (star A)"
proof
  show "conc (after c A) (star A) \<subseteq> after c (star A)"
    by (auto simp: after_def elim!: concE dest: star_app)
  show "after c (star A) \<subseteq> conc (after c A) (star A)"
    by (auto simp: after_def dest: star_Cons)
qed

lemma lang_deriv: "lang (deriv c r) = after c (lang r)"
proof (induction r)
  case (Lit s)
  show ?case by (cases s) (auto simp: after_def)
next
  case (Cls rs)
  show ?case by (auto simp: after_def)
next
  case (Seq a b)
  then show ?case by (simp add: after_conc nullable_lang)
next
  case (Star a)
  then show ?case by (simp add: after_star)
next
  case (Plus a)
  have "after c (conc (lang a) (star (lang a))) = conc (after c (lang a)) (star (lang a))"
    by (auto simp: after_conc after_star)
  with Plus show ?case by simp
qed simp_all

lemma accepts_lang: "accepts r s \<longleftrightarrow> s \<in> lang r"
  by (induction s arbitrary: r) (simp_all add: nullable_lang lang_deriv after_def)

lemma test_lang: "test r s \<longleftrightarrow> s \<in> lang r"
  by (simp add: test_def accepts_lang)

section \<open>The states listed for a pattern include those a scanner reaches\<close>

lemma kind_of_class_kinds:
  assumes "in_ranges c rs"
  shows "kind_of sc c \<in> set (class_kinds sc rs)"
proof -
  from assms obtain a b where ab: "(a, b) \<in> set rs" "a \<le> c" "c \<le> b"
    by (auto simp: in_ranges_def list_ex_iff)
  show ?thesis
  proof (cases "find (\<lambda>(lo, hi, k). lo \<le> c \<and> c \<le> hi) (kinds sc)")
    case None
    then have none: "\<And>lo hi k. (lo, hi, k) \<in> set (kinds sc) \<Longrightarrow> \<not> (lo \<le> c \<and> c \<le> hi)"
      by (auto simp: find_None_iff)
    have "\<not> list_ex (\<lambda>(lo, hi, k). lo \<le> a \<and> b \<le> hi) (kinds sc)"
    proof
      assume "list_ex (\<lambda>(lo, hi, k). lo \<le> a \<and> b \<le> hi) (kinds sc)"
      then obtain lo hi k where "(lo, hi, k) \<in> set (kinds sc)" "lo \<le> a" "b \<le> hi"
        by (auto simp: list_ex_iff)
      with ab none[of lo hi k] show False by auto
    qed
    with ab(1) have "\<not> list_all (\<lambda>(a, b). list_ex (\<lambda>(lo, hi, k). lo \<le> a \<and> b \<le> hi) (kinds sc)) rs"
      by (auto simp: list_all_iff)
    with None show ?thesis
      by (simp add: kind_of_def class_kinds_def)
  next
    case (Some e)
    obtain lo hi k where e: "e = (lo, hi, k)" by (cases e) auto
    from Some e have in_kinds: "(lo, hi, k) \<in> set (kinds sc)" and c: "lo \<le> c" "c \<le> hi"
      by (auto simp: find_Some_iff in_set_conv_nth)
    from ab c have "lo \<le> b" "a \<le> hi" by auto
    with ab(1) have "list_ex (\<lambda>(a, b). lo \<le> b \<and> a \<le> hi) rs"
      by (auto simp: list_ex_iff)
    with in_kinds have "k \<in> set (class_kinds sc rs)"
      by (force simp: class_kinds_def)
    with Some e show ?thesis by (simp add: kind_of_def)
  qed
qed

lemma run_simps [simp]:
  "run sc q [] = q"
  "run sc q (c # s) = run sc (step sc q c) s"
  "run sc q (u @ v) = run sc (run sc q u) v"
  by (simp_all add: run_def)

lemma set_run_each: "set (run_each sc s Q) = (\<lambda>q. run sc q s) ` set Q"
  by (induction Q) auto

lemma set_moves: "set (moves sc ks Q) = (\<Union>q\<in>set Q. delta sc q ` set ks)"
  by (induction Q) auto

lemma saturate_closed:
  "saturate f n Q = Some R \<Longrightarrow> set Q \<subseteq> set R \<and> (\<exists>R'. f R = Some R' \<and> set R' \<subseteq> set R)"
proof (induction f n Q rule: saturate.induct)
  case (1 f Q)
  then show ?case by simp
next
  case (2 f n Q)
  then show ?case
    by (auto simp: list_all_iff split: option.splits if_splits)
qed

lemma star_invariant:
  assumes "s \<in> star A" and "q \<in> S"
    and "\<And>q u. q \<in> S \<Longrightarrow> u \<in> A \<Longrightarrow> run sc q u \<in> S"
  shows "run sc q s \<in> S"
  using assms(1,2)
proof (induction arbitrary: q rule: star.induct)
  case star_nil
  then show ?case by simp
next
  case (star_app u v)
  then show ?case by (simp add: assms(3))
qed

lemma post_sound:
  "post sc n r Q = Some R \<Longrightarrow> q \<in> set Q \<Longrightarrow> s \<in> lang r \<Longrightarrow> run sc q s \<in> set R"
proof (induction r arbitrary: Q R q s)
  case Zero
  then show ?case by simp
next
  case (Lit x)
  then show ?case by (auto simp: set_run_each)
next
  case (Cls rs)
  then obtain c where c: "s = [c]" "in_ranges c rs" by auto
  from kind_of_class_kinds[OF c(2)] have "step sc q c \<in> delta sc q ` set (class_kinds sc rs)"
    by (simp add: step_def)
  with Cls.prems(2) have "step sc q c \<in> set (moves sc (class_kinds sc rs) Q)"
    unfolding set_moves by blast
  with Cls.prems(1) show ?case
    by (auto simp: c(1))
next
  case (Seq a b)
  from Seq.prems(3) obtain u v where uv: "s = u @ v" "u \<in> lang a" "v \<in> lang b"
    by (auto simp: conc_def)
  from Seq.prems(1) obtain M where M: "post sc n a Q = Some M" "post sc n b M = Some R"
    by (auto split: option.splits)
  have "run sc q u \<in> set M" using Seq.IH(1)[OF M(1) Seq.prems(2) uv(2)] .
  then have "run sc (run sc q u) v \<in> set R" using Seq.IH(2)[OF M(2) _ uv(3)] by blast
  then show ?case by (simp add: uv(1))
next
  case (Alt a b)
  then show ?case by (auto split: option.splits)
next
  case (Star a)
  from Star.prems(1) have sat: "saturate (post sc n a) n Q = Some R" by simp
  from saturate_closed[OF sat] obtain R' where
    R: "set Q \<subseteq> set R" "post sc n a R = Some R'" "set R' \<subseteq> set R" by blast
  show ?case
  proof (rule star_invariant[where A = "lang a"])
    show "s \<in> star (lang a)" using Star.prems(3) by simp
    show "q \<in> set R" using R(1) Star.prems(2) by blast
    show "run sc p u \<in> set R" if "p \<in> set R" "u \<in> lang a" for p u
      using Star.IH[OF R(2) that] R(3) by blast
  qed
next
  case (Plus a)
  from Plus.prems(3) obtain u v where uv: "s = u @ v" "u \<in> lang a" "v \<in> star (lang a)"
    by (auto simp: conc_def)
  from Plus.prems(1) obtain M where
    M: "post sc n a Q = Some M" "saturate (post sc n a) n M = Some R"
    by (auto split: option.splits)
  from saturate_closed[OF M(2)] obtain R' where
    R: "set M \<subseteq> set R" "post sc n a R = Some R'" "set R' \<subseteq> set R" by blast
  have "run sc q u \<in> set M" using Plus.IH[OF M(1) Plus.prems(2) uv(2)] .
  then have start: "run sc q u \<in> set R" using R(1) by blast
  have "run sc (run sc q u) v \<in> set R"
  proof (rule star_invariant[where A = "lang a"])
    show "v \<in> star (lang a)" by (rule uv(3))
    show "run sc q u \<in> set R" by (rule start)
    show "run sc p w \<in> set R" if "p \<in> set R" "w \<in> lang a" for p w
      using Plus.IH[OF R(2) that] R(3) by blast
  qed
  then show ?case by (simp add: uv(1))
next
  case (Opt a)
  then show ?case by (auto split: option.splits)
qed

lemma ends_in_sound: "ends_in sc r ok \<Longrightarrow> test r s \<Longrightarrow> run sc 0 s \<in> set ok"
proof -
  assume e: "ends_in sc r ok" and t: "test r s"
  from e obtain R where R: "post sc 8 r [0] = Some R" "set R \<subseteq> set ok"
    by (auto simp: ends_in_def list_all_iff split: option.splits)
  from t have "s \<in> lang r" by (simp add: test_lang)
  from post_sound[OF R(1) _ this, of 0] R(2) show ?thesis by auto
qed

section \<open>Precedence among the grammars\<close>

lemma upper_BLOCK: "ends_in upper_seen BLOCK_PATTERN [0]" by code_simp
lemma upper_ELEMENT: "ends_in upper_seen ELEMENT_PATTERN [0]" by code_simp
lemma upper_NESTED: "ends_in upper_seen NESTED_ELEMENT_PATTERN [0]" by code_simp
lemma upper_MODIFIER: "ends_in upper_seen MODIFIER_PATTERN [0]" by code_simp
lemma upper_STATE: "ends_in upper_seen STATE_PATTERN [1]" by code_simp
lemma underscore_BLOCK: "ends_in underscore_seen BLOCK_PATTERN [0]" by code_simp
lemma underscore_ELEMENT: "ends_in underscore_seen ELEMENT_PATTERN [1]" by code_simp
lemma underscore_NESTED: "ends_in underscore_seen NESTED_ELEMENT_PATTERN [1]" by code_simp
lemma hyphens_BLOCK: "ends_in hyphens BLOCK_PATTERN [0]" by code_simp
lemma hyphens_MODIFIER: "ends_in hyphens MODIFIER_PATTERN [2]" by code_simp

lemma state_not_bem:
  assumes "isStateClass t"
  shows "\<not> isBlock t" "\<not> isElement t" "\<not> isNestedElement t" "\<not> isModifier t"
proof -
  from assms have "run upper_seen 0 t = 1"
    using ends_in_sound[OF upper_STATE] by (simp add: isStateClass_def)
  then show "\<not> isBlock t" "\<not> isElement t" "\<not> isNestedElement t" "\<not> isModifier t"
    using ends_in_sound[OF upper_BLOCK, of t] ends_in_sound[OF upper_ELEMENT, of t]
      ends_in_sound[OF upper_NESTED, of t] ends_in_sound[OF upper_MODIFIER, of t]
    by (auto simp: isBlock_def isElement_def isNestedElement_def isModifier_def)
qed

lemma block_not_other:
  assumes "isBlock t"
  shows "\<not> isStateClass t" "\<not> isElement t" "\<not> isNestedElement t" "\<not> isModifier t"
proof -
  from assms show "\<not> isStateClass t" using state_not_bem(1) by blast
  from assms have "run underscore_seen 0 t = 0"
    using ends_in_sound[OF underscore_BLOCK] by (simp add: isBlock_def)
  then show "\<not> isElement t" "\<not> isNestedElement t"
    using ends_in_sound[OF underscore_ELEMENT, of t] ends_in_sound[OF underscore_NESTED, of t]
    by (auto simp: isElement_def isNestedElement_def)
  from assms have "run hyphens 0 t = 0"
    using ends_in_sound[OF hyphens_BLOCK] by (simp add: isBlock_def)
  then show "\<not> isModifier t"
    using ends_in_sound[OF hyphens_MODIFIER, of t]
    by (auto simp: isModifier_def)
qed

text \<open>
  C2. A token that the block grammar matches and for which the utility check answers
  true (a built-in pattern matches it, or a custom one does) is given the kind utility
  by \<open>getClassType\<close> when \<open>strictBem\<close> is not set, and no kind when it is set; it is
  never given the kind block. In particular \<open>mt-2\<close> has no kind under
  \<open>{strictBem: true}\<close> and the kind utility under \<open>{strictBem: false}\<close>.
\<close>

theorem utility_before_block:
  assumes "isBlock t"
    and "isUtilityClass RegExp t (Option.bind config customUtilities) = Inr True"
  shows "getClassType RegExp t config =
           Inr (if truthy (Option.bind config strictBem) then None else Some Utility)"
  using assms block_not_other[OF assms(1)] by (simp add: getClassType_def)

theorem utility_before_block_witness:
  "getClassType sample_RegExp ''mt-2''
     (Some \<lparr>customUtilities = None, allowUnknown = None, strictBem = Some True\<rparr>) = Inr None \<and>
   getClassType sample_RegExp ''mt-2''
     (Some \<lparr>customUtilities = None, allowUnknown = None, strictBem = Some False\<rparr>) =
     Inr (Some Utility) \<and>
   getClassType sample_RegExp ''flex'' None = Inr (Some Utility)"
proof -
  have b: "isBlock ''mt-2''" "isBlock ''flex''" by code_simp+
  have u: "isUtilityClass sample_RegExp ''mt-2'' None = Inr True"
    "isUtilityClass sample_RegExp ''flex'' None = Inr True" by code_simp+
  show ?thesis
    using utility_before_block[of "''mt-2''" sample_RegExp
        "Some \<lparr>customUtilities = None, allowUnknown = None, strictBem = Some True\<rparr>"]
      utility_before_block[of "''mt-2''" sample_RegExp
        "Some \<lparr>customUtilities = None, allowUnknown = None, strictBem = Some False\<rparr>"]
      utility_before_block[of "''flex''" sample_RegExp None]
      b u
    by (simp add: truthy_def)
qed

section \<open>State tokens\<close>

lemma star_of_class: "list_all (\<lambda>c. in_ranges c rs) w \<Longrightarrow> w \<in> star (lang (Cls rs))"
proof (induction w)
  case Nil
  show ?case by (rule star_nil)
next
  case (Cons c w)
  then have "[c] \<in> lang (Cls rs)" "w \<in> star (lang (Cls rs))" by simp_all
  then have "[c] @ w \<in> star (lang (Cls rs))" by (rule star_app)
  then show ?case by simp
qed

text \<open>
  C5. A token that consists of \<open>is\<close> or \<open>has\<close>, an uppercase letter and then any
  number of letters and digits is given the kind state by \<open>getClassType\<close>, under every
  configuration and whatever the constructor makes of the custom utility sources.
\<close>

theorem state_shape_is_state:
  assumes "p = ''is'' \<or> p = ''has''"
    and "in_ranges u [(CHR ''A'', CHR ''Z'')]"
    and "list_all (\<lambda>c. in_ranges c [(CHR ''a'', CHR ''z''), (CHR ''A'', CHR ''Z''),
                                      (CHR ''0'', CHR ''9'')]) rest"
  shows "getClassType RegExp (p @ u # rest) config = Inr (Some State)"
proof -
  have "p \<in> lang (words [''is'', ''has''])"
    using assms(1) by (auto simp: words_def)
  moreover have "[u] \<in> lang (Cls [(CHR ''A'', CHR ''Z'')])"
    using assms(2) by simp
  moreover note star_of_class[OF assms(3)]
  ultimately have "p @ [u] @ rest \<in> lang STATE_PATTERN"
    unfolding STATE_PATTERN_def cat.simps lang.simps by (intro concI)
  then have "isStateClass (p @ u # rest)"
    by (simp add: isStateClass_def test_lang)
  then show ?thesis by (simp add: getClassType_def)
qed

theorem state_shape_is_state_witness:
  "getClassType (\<lambda>src. (Inr (\<lambda>s. True) :: unit + (string \<Rightarrow> bool))) ''hasError''
     (Some \<lparr>customUtilities = Some [''^has''], allowUnknown = None, strictBem = Some True\<rparr>) =
     Inr (Some State) \<and>
   getClassType sample_RegExp ''isA''
     (Some \<lparr>customUtilities = Some [''(''], allowUnknown = None, strictBem = None\<rparr>) =
     Inr (Some State)"
  using state_shape_is_state[of "''has''" "CHR ''E''" "''rror''"
      "\<lambda>src. (Inr (\<lambda>s. True) :: unit + (string \<Rightarrow> bool))"
      "Some \<lparr>customUtilities = Some [''^has''], allowUnknown = None, strictBem = Some True\<rparr>"]
    state_shape_is_state[of "''is''" "CHR ''A''" "[]" sample_RegExp
      "Some \<lparr>customUtilities = Some [''(''], allowUnknown = None, strictBem = None\<rparr>"]
  by (simp add: in_ranges_def)

section \<open>Three underscores in a row\<close>

lemma includes_strD: "includes_str t sub \<Longrightarrow> \<exists>u v. t = u @ sub @ v"
proof (induction t)
  case Nil
  then show ?case by simp
next
  case (Cons c t)
  show ?case
  proof (cases "startsWith (c # t) sub")
    case True
    then have "c # t = [] @ sub @ drop (length sub) (c # t)"
      unfolding startsWith_def by (metis append_Nil append_take_drop_id)
    then show ?thesis by blast
  next
    case False
    with Cons.prems have "includes_str t sub" by simp
    with Cons.IH obtain u v where "t = u @ sub @ v" by blast
    then have "c # t = (c # u) @ sub @ v" by simp
    then show ?thesis by blast
  qed
qed

lemma step_underscores:
  "step underscores q c =
     (if c = CHR ''_'' then (if q = 0 then 1 else if q = 1 then 2 else 3)
      else if q = 3 then 3 else 0)"
  by (auto simp: step_def kind_of_def underscores_def)

lemma run_underscores_3: "run underscores 3 v = 3"
  by (induction v) (simp_all add: step_underscores)

lemma triple_reaches_3:
  assumes "includes_str t ''___''"
  shows "run underscores 0 t = 3"
proof -
  from includes_strD[OF assms] obtain u v where t: "t = u @ ''___'' @ v" by blast
  have "run underscores q ''___'' = 3" for q
    by (simp add: step_underscores)
  then show ?thesis by (simp add: t run_underscores_3)
qed

lemma underscores_BLOCK: "ends_in underscores BLOCK_PATTERN [0, 1, 2]" by code_simp
lemma underscores_ELEMENT: "ends_in underscores ELEMENT_PATTERN [0, 1, 2]" by code_simp
lemma underscores_NESTED: "ends_in underscores NESTED_ELEMENT_PATTERN [0, 1, 2]" by code_simp
lemma underscores_MODIFIER: "ends_in underscores MODIFIER_PATTERN [0, 1, 2]" by code_simp
lemma underscores_STATE: "ends_in underscores STATE_PATTERN [0, 1, 2]" by code_simp

lemma star_no_char:
  assumes "s \<in> star A" and "\<And>u. u \<in> A \<Longrightarrow> c \<notin> set u"
  shows "c \<notin> set s"
  using assms(1) by (induction rule: star.induct) (auto dest: assms(2))

lemma underscore_needs_admits:
  "s \<in> lang r \<Longrightarrow> \<not> admits_underscore r \<Longrightarrow> CHR ''_'' \<notin> set s"
proof (induction r arbitrary: s)
  case (Cls rs)
  then show ?case by auto
next
  case (Seq a b)
  then show ?case by (auto simp: conc_def)
next
  case (Star a)
  then show ?case using star_no_char[of s "lang a" "CHR ''_''"] by auto
next
  case (Plus a)
  then show ?case using star_no_char[of _ "lang a" "CHR ''_''"] by (auto simp: conc_def)
qed auto

lemma admitting_patterns: "filter admits_underscore UTILITY_PATTERNS = underscore_tolerant"
  by code_simp

lemma includes_str_mem: "includes_str t (c # sub) \<Longrightarrow> c \<in> set t"
  using includes_strD[of t "c # sub"] by auto

lemma builtin_with_underscore:
  assumes "CHR ''_'' \<in> set t"
  shows "list_all (\<lambda>p. \<not> test p t \<or> p \<in> set underscore_tolerant) UTILITY_PATTERNS"
    and "list_ex (\<lambda>p. test p t) UTILITY_PATTERNS = list_ex (\<lambda>p. test p t) underscore_tolerant"
proof -
  have sub: "set underscore_tolerant \<subseteq> set UTILITY_PATTERNS"
    unfolding admitting_patterns[symmetric] by auto
  have "p \<in> set underscore_tolerant" if "p \<in> set UTILITY_PATTERNS" "test p t" for p
  proof -
    from that(2) assms have "admits_underscore p"
      using underscore_needs_admits[of t p] by (auto simp: test_lang)
    with that(1) show ?thesis
      unfolding admitting_patterns[symmetric] by simp
  qed
  then show "list_all (\<lambda>p. \<not> test p t \<or> p \<in> set underscore_tolerant) UTILITY_PATTERNS"
    by (auto simp: list_all_iff)
  then show "list_ex (\<lambda>p. test p t) UTILITY_PATTERNS = list_ex (\<lambda>p. test p t) underscore_tolerant"
    using sub by (auto simp: list_all_iff list_ex_iff)
qed

text \<open>
  C4, as amended. A token that contains three underscores in a row is matched by none
  of the block, element, nested-element, modifier and state grammars, and by no
  built-in utility pattern but the eleven of \<open>underscore_tolerant\<close>. When one of
  those eleven matches it, \<open>getClassType\<close> gives it the kind utility, and no kind under
  \<open>strictBem\<close>. When none does, it has no kind if no custom utility source is
  configured; with custom sources the loop over them decides: the call throws what the
  constructor throws at a source that it reaches, gives the kind utility (no kind under
  \<open>strictBem\<close>) when a source matches, and no kind when none does. In particular
  \<open>card___triple\<close> has no kind.
\<close>

theorem triple_underscore_outcomes:
  assumes "includes_str t ''___''"
  shows "\<not> isBlock t \<and> \<not> isElement t \<and> \<not> isNestedElement t \<and> \<not> isModifier t \<and>
         \<not> isStateClass t \<and>
         list_all (\<lambda>p. \<not> test p t \<or> p \<in> set underscore_tolerant) UTILITY_PATTERNS \<and>
         getClassType RegExp t config =
           (if list_ex (\<lambda>p. test p t) underscore_tolerant
            then Inr (if truthy (Option.bind config strictBem) then None else Some Utility)
            else case Option.bind config customUtilities of
              None \<Rightarrow> Inr None
            | Some srcs \<Rightarrow>
                (case customLoop RegExp t srcs of
                   Inl e \<Rightarrow> Inl e
                 | Inr u \<Rightarrow> Inr (if u \<and> \<not> truthy (Option.bind config strictBem)
                                  then Some Utility else None)))"
proof -
  note r = triple_reaches_3[OF assms]
  have n: "\<not> isBlock t" "\<not> isElement t" "\<not> isNestedElement t" "\<not> isModifier t"
    "\<not> isStateClass t"
    using r ends_in_sound[OF underscores_BLOCK, of t] ends_in_sound[OF underscores_ELEMENT, of t]
      ends_in_sound[OF underscores_NESTED, of t] ends_in_sound[OF underscores_MODIFIER, of t]
      ends_in_sound[OF underscores_STATE, of t]
    by (auto simp: isBlock_def isElement_def isNestedElement_def isModifier_def isStateClass_def)
  have u: "CHR ''_'' \<in> set t" using assms by (rule includes_str_mem)
  note b = builtin_with_underscore[OF u]
  from n b show ?thesis
    by (simp add: getClassType_def isUtilityClass_def split: sum.splits option.splits)
qed

theorem triple_underscore_outcomes_witness:
  "getClassType sample_RegExp ''card___triple'' None = Inr None \<and>
   getClassType sample_RegExp ''card___triple''
     (Some \<lparr>customUtilities = Some [''(''], allowUnknown = None, strictBem = None\<rparr>) =
     Inl ''Invalid regular expression: /(/'' \<and>
   getClassType sample_RegExp ''custom-a___b''
     (Some \<lparr>customUtilities = Some [''^custom-.*$'', ''(''], allowUnknown = None,
            strictBem = None\<rparr>) = Inr (Some Utility) \<and>
   \<not> isNestedElement ''card_info___title''"
proof -
  have i: "includes_str ''card___triple'' ''___''" "includes_str ''card_info___title'' ''___''"
    "includes_str ''custom-a___b'' ''___''"
    by code_simp+
  have u: "\<not> list_ex (\<lambda>p. test p ''card___triple'') underscore_tolerant"
    "\<not> list_ex (\<lambda>p. test p ''custom-a___b'') underscore_tolerant"
    by code_simp+
  have c: "customLoop sample_RegExp ''card___triple'' [''(''] =
             Inl ''Invalid regular expression: /(/''"
    "customLoop sample_RegExp ''custom-a___b'' [''^custom-.*$'', ''(''] = Inr True"
    by code_simp+
  show ?thesis
    using triple_underscore_outcomes[OF i(1), of sample_RegExp None]
      triple_underscore_outcomes[OF i(1), of sample_RegExp
        "Some \<lparr>customUtilities = Some [''(''], allowUnknown = None, strictBem = None\<rparr>"]
      triple_underscore_outcomes[OF i(3), of sample_RegExp
        "Some \<lparr>customUtilities = Some [''^custom-.*$'', ''(''], allowUnknown = None,
               strictBem = None\<rparr>"]
      triple_underscore_outcomes[OF i(2), of sample_RegExp None] u c
    by (simp add: truthy_def)
qed

text \<open>
  C4 as it is stated fails: \<open>text-[___]\<close> and \<open>from-a___b\<close> contain three underscores
  in a row, built-in utility patterns match them, and their kind is utility.
\<close>

theorem triple_underscore_counterexample:
  "includes_str ''text-[___]'' ''___'' \<and>
   list_ex (\<lambda>pattern. test pattern ''text-[___]'') UTILITY_PATTERNS \<and>
   getClassType sample_RegExp ''text-[___]'' None = Inr (Some Utility) \<and>
   getClassType sample_RegExp ''from-a___b'' None = Inr (Some Utility)"
  by code_simp

section \<open>The derived predicate\<close>

lemma hyphens_utility_flexbox: "list_all (\<lambda>r. ends_in hyphens r [0, 1, 3]) utility_flexbox"
  unfolding utility_flexbox_def by (simp only: list.pred_inject; intro conjI TrueI; code_simp)

lemma hyphens_utility_grid: "list_all (\<lambda>r. ends_in hyphens r [0, 1, 3]) utility_grid"
  unfolding utility_grid_def by (simp only: list.pred_inject; intro conjI TrueI; code_simp)

lemma hyphens_utility_spacing: "list_all (\<lambda>r. ends_in hyphens r [0, 1, 3]) utility_spacing"
  unfolding utility_spacing_def by (simp only: list.pred_inject; intro conjI TrueI; code_simp)

lemma hyphens_utility_sizing: "list_all (\<lambda>r. ends_in hyphens r [0, 1, 3]) utility_sizing"
  unfolding utility_sizing_def by (simp only: list.pred_inject; intro conjI TrueI; code_simp)

lemma hyphens_utility_typography: "list_all (\<lambda>r. ends_in hyphens r [0, 1, 3]) utility_typography"
  unfolding utility_typography_def by (simp only: list.pred_inject; intro conjI TrueI; code_simp)

lemma hyphens_utility_colors: "list_all (\<lambda>r. ends_in hyphens r [0, 1, 3]) utility_colors"
  unfolding utility_colors_def by (simp only: list.pred_inject; intro conjI TrueI; code_simp)

lemma hyphens_utility_backgrounds: "list_all (\<lambda>r. ends_in hyphens r [0, 1, 3]) utility_backgrounds"
  unfolding utility_backgrounds_def by (simp only: list.pred_inject; intro conjI TrueI; code_simp)

lemma hyphens_utility_borders: "list_all (\<lambda>r. ends_in hyphens r [0, 1, 3]) utility_borders"
  unfolding utility_borders_def by (simp only: list.pred_inject; intro conjI TrueI; code_simp)

lemma hyphens_utility_effects: "list_all (\<lambda>r. ends_in hyphens r [0, 1, 3]) utility_effects"
  unfolding utility_effects_def by (simp only: list.pred_inject; intro conjI TrueI; code_simp)

lemma hyphens_utility_filters: "list_all (\<lambda>r. ends_in hyphens r [0, 1, 3]) utility_filters"
  unfolding utility_filters_def by (simp only: list.pred_inject; intro conjI TrueI; code_simp)

lemma hyphens_utility_layout: "list_all (\<lambda>r. ends_in hyphens r [0, 1, 3]) utility_layout"
  unfolding utility_layout_def by (simp only: list.pred_inject; intro conjI TrueI; code_simp)

lemma hyphens_utility_positioning: "list_all (\<lambda>r. ends_in hyphens r [0, 1, 3]) utility_positioning"
  unfolding utility_positioning_def by (simp only: list.pred_inject; intro conjI TrueI; code_simp)

lemma hyphens_utility_transforms: "list_all (\<lambda>r. ends_in hyphens r [0, 1, 3]) utility_transforms"
  unfolding utility_transforms_def by (simp only: list.pred_inject; intro conjI TrueI; code_simp)

lemma hyphens_utility_transitions: "list_all (\<lambda>r. ends_in hyphens r [0, 1, 3]) utility_transitions"
  unfolding utility_transitions_def by (simp only: list.pred_inject; intro conjI TrueI; code_simp)

lemma hyphens_utility_interactivity: "list_all (\<lambda>r. ends_in hyphens r [0, 1, 3]) utility_interactivity"
  unfolding utility_interactivity_def by (simp only: list.pred_inject; intro conjI TrueI; code_simp)

lemma hyphens_utility_accessibility: "list_all (\<lambda>r. ends_in hyphens r [0, 1, 3]) utility_accessibility"
  unfolding utility_accessibility_def by (simp only: list.pred_inject; intro conjI TrueI; code_simp)

lemma hyphens_utility_tables: "list_all (\<lambda>r. ends_in hyphens r [0, 1, 3]) utility_tables"
  unfolding utility_tables_def by (simp only: list.pred_inject; intro conjI TrueI; code_simp)

lemma hyphens_utility_svg: "list_all (\<lambda>r. ends_in hyphens r [0, 1, 3]) utility_svg"
  unfolding utility_svg_def by (simp only: list.pred_inject; intro conjI TrueI; code_simp)

lemma hyphens_utility_aspect_ratio: "list_all (\<lambda>r. ends_in hyphens r [0, 1, 3]) utility_aspect_ratio"
  unfolding utility_aspect_ratio_def by (simp only: list.pred_inject; intro conjI TrueI; code_simp)

lemma hyphens_utility_columns: "list_all (\<lambda>r. ends_in hyphens r [0, 1, 3]) utility_columns"
  unfolding utility_columns_def by (simp only: list.pred_inject; intro conjI TrueI; code_simp)

lemma hyphens_utility_box_decoration: "list_all (\<lambda>r. ends_in hyphens r [0, 1, 3]) utility_box_decoration"
  unfolding utility_box_decoration_def by (simp only: list.pred_inject; intro conjI TrueI; code_simp)

lemma hyphens_utility_container: "list_all (\<lambda>r. ends_in hyphens r [0, 1, 3]) utility_container"
  unfolding utility_container_def by (simp only: list.pred_inject; intro conjI TrueI; code_simp)

lemma hyphens_utility_visibility: "list_all (\<lambda>r. ends_in hyphens r [0, 1, 3]) utility_visibility"
  unfolding utility_visibility_def by (simp only: list.pred_inject; intro conjI TrueI; code_simp)

lemma hyphens_UTILITY_PATTERNS: "list_all (\<lambda>r. ends_in hyphens r [0, 1, 3]) UTILITY_PATTERNS"
  unfolding UTILITY_PATTERNS_def list_all_append
  by (intro conjI hyphens_utility_flexbox hyphens_utility_grid hyphens_utility_spacing hyphens_utility_sizing hyphens_utility_typography hyphens_utility_colors hyphens_utility_backgrounds hyphens_utility_borders hyphens_utility_effects hyphens_utility_filters hyphens_utility_layout hyphens_utility_positioning hyphens_utility_transforms hyphens_utility_transitions hyphens_utility_interactivity hyphens_utility_accessibility hyphens_utility_tables hyphens_utility_svg hyphens_utility_aspect_ratio hyphens_utility_columns hyphens_utility_box_decoration hyphens_utility_container hyphens_utility_visibility)


lemma modifier_not_builtin:
  assumes "isModifier t"
  shows "\<not> list_ex (\<lambda>pattern. test pattern t) UTILITY_PATTERNS"
proof
  assume "list_ex (\<lambda>pattern. test pattern t) UTILITY_PATTERNS"
  then obtain r where r: "r \<in> set UTILITY_PATTERNS" "test r t"
    by (auto simp: list_ex_iff)
  from r(1) have "ends_in hyphens r [0, 1, 3]"
    using hyphens_UTILITY_PATTERNS by (simp add: list_all_iff)
  from ends_in_sound[OF this r(2)] have "run hyphens 0 t \<noteq> 2" by auto
  moreover from assms have "run hyphens 0 t = 2"
    using ends_in_sound[OF hyphens_MODIFIER, of t] by (simp add: isModifier_def)
  ultimately show False by simp
qed

lemma isUtilityClass_None:
  "isUtilityClass RegExp t None = Inr (list_ex (\<lambda>pattern. test pattern t) UTILITY_PATTERNS)"
  by (simp add: isUtilityClass_def)

text \<open>Where the derived predicate and the kind agree.\<close>

lemma isHcncClass_agrees_with_kind:
  assumes "getClassType RegExp t None = Inr k"
  shows "k = Some State \<or> k = Some Utility \<Longrightarrow> isHcncClass RegExp t = Inr False"
    and "k = Some Block \<or> k = Some Modifier \<Longrightarrow> isHcncClass RegExp t = Inr True"
    and "k = Some Element \<or> k = Some NestedElement \<Longrightarrow>
           \<not> list_ex (\<lambda>pattern. test pattern t) UTILITY_PATTERNS \<Longrightarrow>
           isHcncClass RegExp t = Inr True"
proof -
  let ?u = "list_ex (\<lambda>pattern. test pattern t) UTILITY_PATTERNS"
  have k: "k = (if isStateClass t then Some State else if isModifier t then Some Modifier
                else if isNestedElement t then Some NestedElement
                else if isElement t then Some Element
                else if ?u then Some Utility else if isBlock t then Some Block else None)"
    using assms by (auto simp: getClassType_def isUtilityClass_None truthy_def split: if_splits)
  show "k = Some State \<or> k = Some Utility \<Longrightarrow> isHcncClass RegExp t = Inr False"
    using k state_not_bem[of t]
    by (auto simp: isHcncClass_def isUtilityClass_None split: if_splits)
  show "k = Some Block \<or> k = Some Modifier \<Longrightarrow> isHcncClass RegExp t = Inr True"
    using k modifier_not_builtin[of t]
    by (auto simp: isHcncClass_def isUtilityClass_None split: if_splits)
  show "k = Some Element \<or> k = Some NestedElement \<Longrightarrow> \<not> ?u \<Longrightarrow>
          isHcncClass RegExp t = Inr True"
    using k by (auto simp: isHcncClass_def isUtilityClass_None split: if_splits)
qed

text \<open>
  C1. The specification says that \<open>isHcncClass\<close> is false for the kinds state and
  utility and true for the kinds block, element, nested-element and modifier, that
  \<open>getClassType\<close> gives without a configuration. The source agrees for state,
  utility, block and modifier, and for an element or nested element that no built-in
  utility pattern matches (\<open>isHcncClass_agrees_with_kind\<close>). It tests the utility
  catalog before the element patterns, though, where \<open>getClassType\<close> tests it after
  them: \<open>from-a_b\<close> is an element and \<open>from-a_b__c\<close> a nested element, and
  \<open>isHcncClass\<close> is false for both.
\<close>

theorem isHcncClass_excludes_elements:
  "isElement ''from-a_b'' \<and>
   getClassType sample_RegExp ''from-a_b'' None = Inr (Some Element) \<and>
   isHcncClass sample_RegExp ''from-a_b'' = Inr False \<and>
   isNestedElement ''from-a_b__c'' \<and>
   getClassType sample_RegExp ''from-a_b__c'' None = Inr (Some NestedElement) \<and>
   isHcncClass sample_RegExp ''from-a_b__c'' = Inr False"
  by code_simp

section \<open>The modifier grammar\<close>

lemma conc_assoc: "conc (conc A B) C = conc A (conc B C)"
proof -
  have "\<And>u v w. u \<in> A \<Longrightarrow> v \<in> B \<Longrightarrow> w \<in> C \<Longrightarrow> \<exists>x y. u @ v @ w = x @ y \<and> (\<exists>a b. x = a @ b \<and> a \<in> A \<and> b \<in> B) \<and> y \<in> C"
    by (metis append.assoc)
  then show ?thesis
    unfolding conc_def by (auto; blast)
qed

lemma conc_insert_nil: "conc (insert [] A) B = B \<union> conc A B"
  by (auto simp: conc_def)

lemma conc_Un: "conc A (B \<union> C) = conc A B \<union> conc A C" "conc (A \<union> B) C = conc A C \<union> conc B C"
  by (auto simp: conc_def)

lemma in_conc_lit: "t \<in> conc A (conc {s} B) \<longleftrightarrow> (\<exists>b m. t = b @ s @ m \<and> b \<in> A \<and> m \<in> B)"
  by (auto simp: conc_def)

text \<open>The base shapes of the modifier pattern: the three of the specification, and a
  block followed by \<open>__\<close> and a segment.\<close>

lemma isModifier_shapes:
  "isModifier t \<longleftrightarrow>
     (\<exists>b m. t = b @ ''--'' @ m \<and> test segment m \<and>
        (isBlock b \<or> isElement b \<or> isNestedElement b \<or>
         test (cat [segment, Lit ''__'', segment]) b))"
proof -
  let ?S = "lang segment"
  have "lang MODIFIER_PATTERN =
          conc (?S \<union> conc ?S (conc {''_''} ?S) \<union>
                conc ?S (conc {''_''} (conc ?S (conc {''__''} ?S))) \<union>
                conc ?S (conc {''__''} ?S))
            (conc {''--''} ?S)"
    unfolding MODIFIER_PATTERN_def cat.simps lang.simps
    by (simp add: conc_insert_nil conc_Un conc_assoc Un_commute Un_left_commute)
  then show ?thesis
    unfolding isModifier_def isBlock_def isElement_def isNestedElement_def test_lang
      in_conc_lit BLOCK_PATTERN_def ELEMENT_PATTERN_def NESTED_ELEMENT_PATTERN_def
      cat.simps lang.simps
    by (simp only: in_conc_lit Un_iff) blast
qed

lemma modifier_as_specified_iff:
  "modifier_as_specified t \<longleftrightarrow>
     (\<exists>b m. t = b @ ''--'' @ m \<and> test segment m \<and>
        (isBlock b \<or> isElement b \<or> isNestedElement b))"
proof
  assume "modifier_as_specified t"
  then obtain n where n: "isBlock (take n t) \<or> isElement (take n t) \<or> isNestedElement (take n t)"
    "take 2 (drop n t) = ''--''" "test segment (drop (n + 2) t)"
    by (auto simp: modifier_as_specified_def list_ex_iff)
  have "drop n t = take 2 (drop n t) @ drop 2 (drop n t)"
    by (rule append_take_drop_id[symmetric])
  moreover have "drop 2 (drop n t) = drop (n + 2) t" by (simp add: add.commute)
  moreover have "t = take n t @ drop n t" by simp
  ultimately have "t = take n t @ ''--'' @ drop (n + 2) t"
    using n(2) by metis
  with n show "\<exists>b m. t = b @ ''--'' @ m \<and> test segment m \<and>
        (isBlock b \<or> isElement b \<or> isNestedElement b)" by blast
next
  assume "\<exists>b m. t = b @ ''--'' @ m \<and> test segment m \<and>
        (isBlock b \<or> isElement b \<or> isNestedElement b)"
  then obtain b m where bm: "t = b @ ''--'' @ m" "test segment m"
    "isBlock b \<or> isElement b \<or> isNestedElement b" by blast
  have "length b < length t" by (simp add: bm(1))
  moreover have "take (length b) t = b" "take 2 (drop (length b) t) = ''--''"
    "drop (length b + 2) t = m" by (simp_all add: bm(1))
  ultimately show "modifier_as_specified t"
    using bm(2,3) unfolding modifier_as_specified_def list_ex_iff by force
qed

lemma modifier_as_specified_accepted: "modifier_as_specified t \<Longrightarrow> isModifier t"
  unfolding modifier_as_specified_iff isModifier_shapes by blast

text \<open>
  C3. The specification says that \<open>isModifier\<close> accepts a token exactly when it is a
  block, an element or a nested element followed by \<open>--\<close> and one segment. The pattern
  of the source accepts every such token (\<open>modifier_as_specified_accepted\<close>) and one
  shape more (\<open>isModifier_shapes\<close>): it matches \<open>card__title--bold\<close>, whose part
  before \<open>--\<close> is no block, no element and no nested element, so that the token is
  not a modifier in the words of the specification.
\<close>

theorem modifier_double_underscore_base:
  "isModifier ''card__title--bold'' \<and>
   \<not> isBlock ''card__title'' \<and> \<not> isElement ''card__title'' \<and>
   \<not> isNestedElement ''card__title'' \<and>
   \<not> modifier_as_specified ''card__title--bold''"
  by code_simp

section \<open>Diagnostics\<close>

lemma double_underscore_guard_dead:
  "includes_str t ''__'' \<Longrightarrow> includes_str t ''_''"
proof (induction t)
  case Nil
  then show ?case by simp
next
  case (Cons c t)
  then show ?case by (auto simp: startsWith_def)
qed

text \<open>
  C6. The specification says that the message for a token without a kind that has a
  double underscore and no single one suggests a single underscore. The source guards
  that suggestion with a condition that no token meets (\<open>double_underscore_guard_dead\<close>):
  \<open>card__title\<close> has no kind, and the message of \<open>validateClassName\<close> for it carries
  no suggestion at all.
\<close>

theorem double_underscore_no_suggestion:
  \<open>getClassType sample_RegExp ''card__title'' None = Inr None \<and>
   validateClassName sample_RegExp toUpperCase ''card__title'' None =
     Inr \<lparr>valid = False, type = None,
          message = Some ''Class "card__title" does not match HCNC naming convention''\<rparr>\<close>
  by code_simp

text \<open>
  C7, as amended. When no grammar matches a token and the utility check, which
  compiles the custom utility sources on its way, answers false without throwing, and
  \<open>allowUnknown\<close> is set, \<open>validateClassName\<close> returns a valid result without a
  kind, with the message that the class is unknown and allowed by the configuration,
  which is not empty.
\<close>

theorem allowUnknown_accepts:
  assumes "\<not> isStateClass t" "\<not> isModifier t" "\<not> isNestedElement t" "\<not> isElement t"
    "\<not> isBlock t"
    and "isUtilityClass RegExp t (Option.bind config customUtilities) = Inr False"
    and "truthy (Option.bind config allowUnknown)"
  shows \<open>validateClassName RegExp toUpperCase t config =
           Inr \<lparr>valid = True, type = None,
                message = Some (''Unknown class "'' @ t @ ''" (allowed by config)'')\<rparr> \<and>
         ''Unknown class "'' @ t @ ''" (allowed by config)'' \<noteq> []\<close>
  using assms by (simp add: validateClassName_def getClassType_def)

theorem allowUnknown_accepts_witness:
  \<open>validateClassName sample_RegExp sample_toUpperCase ''UnknownThing''
     (Some \<lparr>customUtilities = None, allowUnknown = Some True, strictBem = None\<rparr>) =
     Inr \<lparr>valid = True, type = None,
          message = Some ''Unknown class "UnknownThing" (allowed by config)''\<rparr>\<close>
proof -
  have n: "\<not> isStateClass ''UnknownThing''" "\<not> isModifier ''UnknownThing''"
    "\<not> isNestedElement ''UnknownThing''" "\<not> isElement ''UnknownThing''"
    "\<not> isBlock ''UnknownThing''"
    "isUtilityClass sample_RegExp ''UnknownThing'' None = Inr False"
    by code_simp+
  show ?thesis
    using allowUnknown_accepts[of "''UnknownThing''" sample_RegExp
        "Some \<lparr>customUtilities = None, allowUnknown = Some True, strictBem = None\<rparr>"] n
    by (simp add: truthy_def)
qed

text \<open>
  C7 as it is stated fails: no grammar matches \<open>UnknownThing\<close>, and with
  \<open>allowUnknown\<close> set and the source \<open>(\<close> as a custom utility, for which the
  constructor throws, \<open>validateClassName\<close> throws and returns no result.
\<close>

theorem allowUnknown_counterexample:
  "\<not> isStateClass ''UnknownThing'' \<and> \<not> isModifier ''UnknownThing'' \<and>
   \<not> isNestedElement ''UnknownThing'' \<and> \<not> isElement ''UnknownThing'' \<and>
   \<not> isBlock ''UnknownThing'' \<and>
   \<not> list_ex (\<lambda>pattern. test pattern ''UnknownThing'') UTILITY_PATTERNS \<and>
   isl (sample_RegExp ''('') \<and>
   validateClassName sample_RegExp sample_toUpperCase ''UnknownThing''
     (Some \<lparr>customUtilities = Some [''(''], allowUnknown = Some True, strictBem = None\<rparr>) =
     Inl ''Invalid regular expression: /(/''"
  by code_simp

section \<open>Malformed custom utility sources\<close>






section \<open>Classification leaves the module as it is\<close>

lemma RegExp_test_literal: "RegExp_test (literal b) s = (accepts b s, literal b)"
  by (simp add: RegExp_test_def literal_def)

lemma builtinLoop_in_literal:
  "builtinLoop_in t (map literal ps) = (list_ex (\<lambda>pattern. test pattern t) ps, map literal ps)"
  by (induction ps) (simp_all add: RegExp_test_literal test_def)

lemma tests_in_loaded:
  "isBlock_in t loaded = (isBlock t, loaded)"
  "isElement_in t loaded = (isElement t, loaded)"
  "isNestedElement_in t loaded = (isNestedElement t, loaded)"
  "isModifier_in t loaded = (isModifier t, loaded)"
  "isStateClass_in t loaded = (isStateClass t, loaded)"
  by (simp_all add: isBlock_in_def isElement_in_def isNestedElement_in_def isModifier_in_def
      isStateClass_in_def isBlock_def isElement_def isNestedElement_def isModifier_def
      isStateClass_def test_def loaded_def RegExp_test_literal)

lemma isUtilityClass_in_loaded:
  "isUtilityClass_in RegExp t custom loaded = (isUtilityClass RegExp t custom, loaded)"
proof -
  have "utility_patterns loaded = map literal UTILITY_PATTERNS"
    by (simp add: loaded_def)
  moreover have "loaded\<lparr>utility_patterns := map literal UTILITY_PATTERNS\<rparr> = loaded"
    by (simp add: loaded_def)
  ultimately show ?thesis
    by (simp add: isUtilityClass_in_def isUtilityClass_def builtinLoop_in_literal
        split: option.splits)
qed

lemma getClassType_in_loaded:
  "getClassType_in RegExp t c loaded = (getClassType RegExp t c, loaded)"
  by (simp add: getClassType_in_def getClassType_def tests_in_loaded isUtilityClass_in_loaded
      split: sum.splits)

lemma upperNonState_in_loaded:
  "upperNonState_in t loaded =
     (test_anywhere (Cls [(CHR ''A'', CHR ''Z'')]) t \<and> \<not> isStateClass t, loaded)"
  by (simp add: upperNonState_in_def tests_in_loaded)

text \<open>
  C9. In the module as it is loaded, a call of \<open>getClassType\<close> or of
  \<open>validateClassName\<close> returns what the function of the token and the configuration
  alone gives, and leaves every pattern object of the module as it was: whatever calls
  came before, the same arguments give the same result.
\<close>

theorem classification_is_pure:
  "getClassType_in RegExp t c loaded = (getClassType RegExp t c, loaded) \<and>
   validateClassName_in RegExp toUpperCase t c loaded =
     (validateClassName RegExp toUpperCase t c, loaded)"
  by (simp add: getClassType_in_loaded validateClassName_in_def validateClassName_def
      upperNonState_in_loaded suggestions_def split: sum.splits option.splits)

text \<open>
  The state of a pattern object is not idle in this model: had the block pattern the
  flag \<open>g\<close>, a second \<open>test\<close> of the same token would answer differently.
\<close>

lemma global_flag_would_alternate:
  "fst (RegExp_test ((literal BLOCK_PATTERN)\<lparr>global := True\<rparr>) ''card'') = True \<and>
   fst (RegExp_test (snd (RegExp_test ((literal BLOCK_PATTERN)\<lparr>global := True\<rparr>) ''card''))
          ''card'') = False"
  by code_simp

section \<open>Lines of SCSS on an empty stack\<close>

lemma includes_str_char: "includes_str s [c] \<longleftrightarrow> c \<in> set s"
  by (induction s) (auto simp: startsWith_def)

lemma dropWhile_keeps: "c \<in> set s \<Longrightarrow> \<not> P c \<Longrightarrow> c \<in> set (dropWhile P s)"
  by (induction s) auto

lemma trim_keeps: "c \<in> set s \<Longrightarrow> \<not> isSpace c \<Longrightarrow> c \<in> set (trim s)"
  by (simp add: trim_def dropWhile_keeps)

lemma find_holds: "find P xs = Some x \<Longrightarrow> P x"
  by (induction xs) (auto split: if_splits)

lemma selectorMatch_Some:
  assumes "selectorMatch t = Some m"
  shows "\<exists>rest. t = m @ rest \<and> test SELECTOR_GROUP m \<and> test SELECTOR_REST rest"
proof -
  from assms obtain n where
    f: "find (\<lambda>n. accepts SELECTOR_GROUP (take n t) \<and> accepts SELECTOR_REST (drop n t))
          (rev [0..<Suc (length t)]) = Some n" and m: "m = take n t"
    unfolding selectorMatch_def by (auto simp only: map_option_eq_Some)
  from find_holds[OF f] m have
    n: "accepts SELECTOR_GROUP (take n t)" "accepts SELECTOR_REST (drop n t)" "m = take n t"
    by simp_all
  have "t = take n t @ drop n t" by simp
  with n show ?thesis unfolding test_def by blast
qed

lemma step_brace_seen: "step brace_seen q c = (if q = 1 \<or> c = CHR ''}'' then 1 else 0)"
  by (auto simp: step_def kind_of_def brace_seen_def)

lemma run_brace_seen:
  "run brace_seen q s = (if q = 1 \<or> CHR ''}'' \<in> set s then 1 else if s = [] then q else 0)"
  by (induction s arbitrary: q) (auto simp: step_brace_seen)

lemma brace_GROUP: "ends_in brace_seen SELECTOR_GROUP [0]" by code_simp
lemma brace_REST: "ends_in brace_seen SELECTOR_REST [0]" by code_simp

lemma selectorMatch_no_brace:
  assumes "CHR ''}'' \<in> set t"
  shows "selectorMatch t = None"
proof (rule ccontr)
  assume "selectorMatch t \<noteq> None"
  then obtain m where "selectorMatch t = Some m" by auto
  from selectorMatch_Some[OF this] obtain rest where
    r: "t = m @ rest" "test SELECTOR_GROUP m" "test SELECTOR_REST rest" by blast
  from ends_in_sound[OF brace_GROUP r(2)] have "CHR ''}'' \<notin> set m"
    by (auto simp: run_brace_seen split: if_splits)
  moreover from ends_in_sound[OF brace_REST r(3)] have "CHR ''}'' \<notin> set rest"
    by (auto simp: run_brace_seen split: if_splits)
  ultimately show False using assms r(1) by auto
qed

lemma step_second_dot:
  "step second_dot q c =
     (if q = 0 then 1 else if q = 1 then (if c = CHR ''.'' then 2 else 3) else q)"
  by (auto simp: step_def kind_of_def second_dot_def)

lemma run_second_dot_fixed: "q = 2 \<or> q = 3 \<Longrightarrow> run second_dot q s = q"
  by (induction s) (auto simp: step_second_dot)

lemma dot_GROUP: "ends_in second_dot SELECTOR_GROUP [1, 3]" by code_simp

lemma selector_second_not_dot:
  assumes "test SELECTOR_GROUP (a # rest)"
  shows "\<not> startsWith rest ''.''"
proof
  assume "startsWith rest ''.''"
  then obtain r where "rest = CHR ''.'' # r"
    by (cases rest) (auto simp: startsWith_def)
  then have "run second_dot 0 (a # rest) = 2"
    by (simp add: step_second_dot run_second_dot_fixed)
  with ends_in_sound[OF dot_GROUP assms] show False by simp
qed

lemma kinds_same: "kind_of plain_seen c = kind_of last_plain c"
  by (simp add: kind_of_def plain_seen_def last_plain_def cong: option.case_cong)

lemma kind_of_last_plain: "kind_of last_plain c = 0 \<or> kind_of last_plain c = 1"
  by (auto simp: kind_of_def last_plain_def brace_or_space_def split: option.splits if_splits)

lemma run_last_plain:
  "s \<noteq> [] \<Longrightarrow> run last_plain q s = (if kind_of last_plain (last s) = 1 then 2 else 1)"
  by (induction s arbitrary: q) (auto simp: step_def last_plain_def)

lemma run_plain_seen:
  "run plain_seen q s = 0 \<Longrightarrow> c \<in> set s \<Longrightarrow> kind_of last_plain c = 1"
proof (induction s arbitrary: q)
  case Nil
  then show ?case by simp
next
  case (Cons x s)
  have fixed: "run plain_seen 1 w = 1" for w
    by (induction w) (simp_all add: step_def plain_seen_def)
  from Cons.prems(1) have r: "run plain_seen (step plain_seen q x) s = 0" by simp
  have x: "kind_of last_plain x = 1 \<and> step plain_seen q x = 0"
  proof (rule ccontr)
    assume "\<not> (kind_of last_plain x = 1 \<and> step plain_seen q x = 0)"
    moreover have "step plain_seen q x = (if q = 1 \<or> kind_of last_plain x = 0 then 1 else 0)"
      by (simp add: step_def kinds_same[symmetric]) (simp add: plain_seen_def)
    ultimately have "step plain_seen q x = 1"
      using kind_of_last_plain[of x] by (auto split: if_splits)
    with r fixed show False by simp
  qed
  show ?case
  proof (cases "c = x")
    case True
    with x show ?thesis by simp
  next
    case False
    with Cons.prems(2) have "c \<in> set s" by simp
    with Cons.IH[OF r] show ?thesis by simp
  qed
qed

lemma last_GROUP: "ends_in last_plain SELECTOR_GROUP [1]" by code_simp
lemma plain_REST: "ends_in plain_seen SELECTOR_REST [0]" by code_simp

lemma group_not_nil: "\<not> test SELECTOR_GROUP []" by code_simp

text \<open>A line splits in at most one way into the capture group and the rest of the
  selector pattern, so that the group is the same in whatever order the splits are tried.\<close>

lemma selector_split_unique:
  assumes "test SELECTOR_GROUP (take n t)" "test SELECTOR_REST (drop n t)"
    and "test SELECTOR_GROUP (take m t)" "test SELECTOR_REST (drop m t)"
    and "n \<le> length t" "m \<le> length t"
  shows "n = m"
proof -
  have less: False
    if g: "test SELECTOR_GROUP (take j t)" and r: "test SELECTOR_REST (drop i t)"
      and ij: "i < j" "j \<le> length t" for i j
  proof -
    from ij have ne: "take j t \<noteq> []" by auto
    from ends_in_sound[OF last_GROUP g] have "run last_plain 0 (take j t) = 1" by simp
    with run_last_plain[OF ne, of 0]
    have "(if kind_of last_plain (last (take j t)) = 1 then 2 else 1) = (1::nat)"
      by (simp only:)
    then have "kind_of last_plain (last (take j t)) \<noteq> 1"
      by (cases "kind_of last_plain (last (take j t)) = 1") simp_all
    moreover have "last (take j t) = t ! (j - 1)"
    proof -
      have "length (take j t) = j" using ij by simp
      with last_conv_nth[OF ne] have "last (take j t) = take j t ! (j - 1)" by simp
      also have "\<dots> = t ! (j - 1)" using ij by (intro nth_take) simp
      finally show ?thesis .
    qed
    moreover have "t ! (j - 1) \<in> set (drop i t)"
    proof -
      have "drop i t ! (j - 1 - i) = t ! (j - 1)" using ij by simp
      moreover have "j - 1 - i < length (drop i t)" using ij by simp
      ultimately show ?thesis by (metis nth_mem)
    qed
    moreover from ends_in_sound[OF plain_REST r] have "run plain_seen 0 (drop i t) = 0" by simp
    ultimately show False using run_plain_seen by metis
  qed
  show ?thesis
  proof (rule ccontr)
    assume "n \<noteq> m"
    then consider "n < m" | "m < n" by linarith
    then show False
      using less[OF assms(3,2) _ assms(6)] less[OF assms(1,4) _ assms(5)] by cases auto
  qed
qed

lemma find_in_set: "find P xs = Some x \<Longrightarrow> x \<in> set xs"
  by (induction xs) (auto split: if_splits)

text \<open>The group that \<open>selectorMatch\<close> returns is the one prefix of the line that the
  capture group matches while \<open>\s*\{?\s*\<close> matches what follows it.\<close>

lemma selectorMatch_iff:
  "selectorMatch t = Some m \<longleftrightarrow>
     (\<exists>rest. t = m @ rest \<and> test SELECTOR_GROUP m \<and> test SELECTOR_REST rest)"
proof
  assume "selectorMatch t = Some m"
  then obtain n where
    f: "find (\<lambda>n. accepts SELECTOR_GROUP (take n t) \<and> accepts SELECTOR_REST (drop n t))
          (rev [0..<Suc (length t)]) = Some n" and m: "m = take n t"
    unfolding selectorMatch_def by (auto simp only: map_option_eq_Some)
  from find_holds[OF f] m have "test SELECTOR_GROUP m" "test SELECTOR_REST (drop n t)"
    by (simp_all add: test_def)
  moreover have "t = m @ drop n t" by (simp add: m)
  ultimately show "\<exists>rest. t = m @ rest \<and> test SELECTOR_GROUP m \<and> test SELECTOR_REST rest"
    by blast
next
  assume "\<exists>rest. t = m @ rest \<and> test SELECTOR_GROUP m \<and> test SELECTOR_REST rest"
  then obtain rest where r: "t = m @ rest" "test SELECTOR_GROUP m" "test SELECTOR_REST rest"
    by blast
  let ?P = "\<lambda>n. accepts SELECTOR_GROUP (take n t) \<and> accepts SELECTOR_REST (drop n t)"
  let ?ns = "rev [0..<Suc (length t)]"
  have here: "?P (length m)" "length m \<in> set ?ns"
    using r by (simp_all add: test_def)
  then have "find ?P ?ns \<noteq> None"
    unfolding find_None_iff by blast
  then obtain n where f: "find ?P ?ns = Some n" by auto
  from find_holds[OF f] find_in_set[OF f] have n: "?P n" "n \<le> length t" by auto
  have "n = length m"
    using selector_split_unique[of n t "length m"] n here r(1) by (simp add: test_def)
  with f r(1) show "selectorMatch t = Some m"
    by (simp add: selectorMatch_def)
qed

text \<open>
  C10. \<open>expandScssNesting\<close> has a result for every text: no operation of its loop
  can throw, and the two operations that read the stack have a value when it is empty.
  A line with a closing brace, met with an empty stack, pops nothing and leaves the
  output as it is; a selector that begins with \<open>&\<close>, met with an empty stack, is
  resolved against the empty string, so that the rest of it is pushed.
\<close>

theorem scssLine_on_empty_stack:
  "(CHR ''}'' \<in> set line \<longrightarrow> scssLine (expanded, []) line = (expanded, [])) \<and>
   (selectorMatch (trim line) = Some (CHR ''&'' # rest) \<longrightarrow>
      scssLine (expanded, []) line = (expanded, [rest]))"
proof (intro conjI impI)
  assume "CHR ''}'' \<in> set line"
  moreover have "\<not> isSpace (CHR ''}'')" by (simp add: isSpace_def in_ranges_def)
  ultimately have b: "CHR ''}'' \<in> set (trim line)" by (rule trim_keeps)
  then have "selectorMatch (trim line) = None" by (rule selectorMatch_no_brace)
  with b show "scssLine (expanded, []) line = (expanded, [])"
    by (simp add: scssLine_def includes_str_char pop_def)
next
  assume m: "selectorMatch (trim line) = Some (CHR ''&'' # rest)"
  from selectorMatch_Some[OF m] have g: "test SELECTOR_GROUP (CHR ''&'' # rest)" by blast
  have nb: "CHR ''}'' \<notin> set (trim line)"
    using selectorMatch_no_brace[of "trim line"] m by auto
  from selector_second_not_dot[OF g] nb m
  show "scssLine (expanded, []) line = (expanded, [rest])"
    by (simp add: scssLine_def includes_str_char parent_def slice_def startsWith_def)
qed

theorem scssLine_on_empty_stack_witness:
  "scssLine ([''card''], []) ''  } '' = ([''card''], []) \<and>
   scssLine ([''card''], []) '' &_info {'' = ([''card''], [''_info'']) \<and>
   expandScssNesting (''}'' @ [CHR 0x0A] @ ''&_info {'' @ [CHR 0x0A] @ ''.card {'') = [''card'']"
proof -
  have a: "CHR ''}'' \<in> set ''  } ''" by simp
  have b: "selectorMatch (trim '' &_info {'') = Some (CHR ''&'' # ''_info'')" by code_simp
  have c: "expandScssNesting (''}'' @ [CHR 0x0A] @ ''&_info {'' @ [CHR 0x0A] @ ''.card {'') =
             [''card'']" by code_simp
  show ?thesis
    using scssLine_on_empty_stack[of "''  } ''" "[''card'']"]
      scssLine_on_empty_stack[of "'' &_info {''" "[''card'']" "''_info''"] a b c
    by simp
qed

end
